theory Spec2Isabelle
  imports Main "HOL-Library.Char_ord" "HOL-Library.List_Lexorder" "HOL-Library.Sublist"
begin

section \<open>The JavaScript values the meeting form computes with\<close>

text \<open>
  Strings are \<^typ>\<open>string\<close>; every string the form handles is ASCII, and \<open><\<close> on
  \<^typ>\<open>string\<close> is the lexicographic order on character codes, which is what the
  JavaScript operators \<^verbatim>\<open><\<close> and \<^verbatim>\<open>>\<close> compute on two strings.
\<close>

definition digit_char :: "nat \<Rightarrow> char" where
  "digit_char d = char_of (48 + d)"

text \<open>\<^verbatim>\<open>n.toString()\<close> for a non-negative integer: its decimal digits.\<close>

fun toString :: "nat \<Rightarrow> string" where
  "toString n =
     (if n < 10 then [digit_char n] else toString (n div 10) @ [digit_char (n mod 10)])"

declare toString.simps [simp del]

text \<open>
  \<^verbatim>\<open>s.padStart(targetLength, padString)\<close>: the pad string is repeated and cut to fill
  up to the target length; a string that is long enough, or an empty pad string, leaves
  \<open>s\<close> as it is.
\<close>

definition padStart :: "string \<Rightarrow> nat \<Rightarrow> string \<Rightarrow> string" where
  "padStart s targetLength padString =
     (if targetLength \<le> length s \<or> padString = [] then s
      else take (targetLength - length s)
             (concat (replicate (targetLength - length s) padString)) @ s)"

text \<open>\<^verbatim>\<open>s.split(sep)\<close> for a one-character separator; \<^verbatim>\<open>"".split(":")\<close> is \<^verbatim>\<open>[""]\<close>.\<close>

fun split :: "char \<Rightarrow> string \<Rightarrow> string list" where
  "split sep [] = [[]]"
| "split sep (c # cs) =
     (if c = sep then [] # split sep cs
      else (case split sep cs of
              [] \<Rightarrow> [[c]]
            | p # ps \<Rightarrow> (c # p) # ps))"

definition is_digit :: "char \<Rightarrow> bool" where
  "is_digit c = (CHR ''0'' \<le> c \<and> c \<le> CHR ''9'')"

definition digit_val :: "char \<Rightarrow> nat" where
  "digit_val c = of_char c - 48"

text \<open>
  \<^verbatim>\<open>Number(s)\<close> on the strings the form passes to it: a run of decimal digits is its
  value and the empty string is 0. \<open>None\<close> stands for \<^verbatim>\<open>NaN\<close>. The other spellings
  \<^verbatim>\<open>Number\<close> accepts (sign, white space, fraction, exponent, radix prefix) never
  reach it here, since every time-of-day string is a generated slot, the output of
  \<^verbatim>\<open>format(d, "HH:mm")\<close> or the initial \<^verbatim>\<open>"09:00"\<close>/\<^verbatim>\<open>"10:00"\<close>; they are \<open>None\<close> too.
\<close>

definition Number :: "string \<Rightarrow> nat option" where
  "Number s =
     (if list_all is_digit s then Some (foldl (\<lambda>a c. 10 * a + digit_val c) 0 s) else None)"

text \<open>
  \<^verbatim>\<open>const [h, m] = time.split(":").map(Number)\<close>: the first two elements of the mapped
  array. A missing element is \<^verbatim>\<open>undefined\<close>, which compares and converts like
  \<^verbatim>\<open>NaN\<close>, so it is \<open>None\<close> as well.
\<close>

definition split_hm :: "string \<Rightarrow> nat option \<times> nat option" where
  "split_hm time =
     (case map Number (split CHR '':'' time) of
        [] \<Rightarrow> (None, None)
      | [h] \<Rightarrow> (h, None)
      | h # m # rest \<Rightarrow> (h, m))"

subsection \<open>Dates\<close>

text \<open>
  A \<^verbatim>\<open>Date\<close> holds a time value: the milliseconds since the epoch, in UTC. Its
  local-time accessors (\<^verbatim>\<open>getFullYear\<close>, \<^verbatim>\<open>getMonth\<close>, \<^verbatim>\<open>getDate\<close>, \<^verbatim>\<open>getHours\<close>,
  \<^verbatim>\<open>getMinutes\<close>, \<^verbatim>\<open>toDateString\<close>) are functions of its local time value, the
  milliseconds on the local time line of the browser's zone (local midnight of day
  \<open>k\<close> is \<open>k * 86400000\<close>). The availability filter reads its dates through these
  accessors only, so there a date is given by its local time value, of type \<open>jsdate\<close>.
  The effect of the form and the resolver also go from local time back to an instant
  and shift instants; there a date is its time value, of type \<open>instant\<close>, and the zone
  is a parameter. Invalid dates are \<open>None\<close> where the source can produce one.
  Dates lie in the year 100 or later: for a year from 0 to 99 the constructor
  \<^verbatim>\<open>new Date(y, m, d)\<close> means the year \<open>1900 + y\<close>, which is not modelled.
\<close>

type_synonym jsdate = int

type_synonym instant = int

definition msPerDay :: int where
  "msPerDay = 86400000"

text \<open>
  \<^verbatim>\<open>new Date(d.getFullYear(), d.getMonth(), d.getDate())\<close>: local midnight of the
  calendar day of \<open>d\<close>.
\<close>

definition dateOnly :: "jsdate \<Rightarrow> jsdate" where
  "dateOnly d = d - d mod msPerDay"

definition getHours :: "jsdate \<Rightarrow> nat" where
  "getHours d = nat ((d mod msPerDay) div 3600000)"

definition getMinutes :: "jsdate \<Rightarrow> nat" where
  "getMinutes d = nat ((d mod 3600000) div 60000)"

text \<open>
  \<^verbatim>\<open>d.toDateString()\<close> prints the local calendar day (weekday, month, day, year) and
  nothing else, so two dates print the same string exactly when they lie in the same
  local day. The string is represented by the index of that day.
\<close>

definition toDateString :: "jsdate \<Rightarrow> int" where
  "toDateString d = d div msPerDay"

text \<open>\<^verbatim>\<open>format(d, "HH:mm")\<close> of date-fns: two-digit hour (00-23), colon, two-digit minute.\<close>

definition format_HHmm :: "jsdate \<Rightarrow> string" where
  "format_HHmm d =
     padStart (toString (getHours d)) 2 ''0'' @ '':'' @ padStart (toString (getMinutes d)) 2 ''0''"

subsection \<open>Time zones\<close>

text \<open>
  A zone is its offset from UTC (local time minus UTC, in milliseconds) before its
  first transition, and its transitions in ascending order: from the given instant
  on, the given offset holds. A zone without daylight saving has no transition.
\<close>

record zone =
  base_offset :: int
  transitions :: "(instant \<times> int) list"

fun offset_from :: "int \<Rightarrow> (instant \<times> int) list \<Rightarrow> instant \<Rightarrow> int" where
  "offset_from off [] t = off"
| "offset_from off ((at, off') # rest) t = (if t < at then off else offset_from off' rest t)"

text \<open>\<open>LocalTime(t)\<close> of ECMAScript: the local time value of an instant.\<close>

definition LocalTime :: "zone \<Rightarrow> instant \<Rightarrow> jsdate" where
  "LocalTime z t = t + offset_from (base_offset z) (transitions z) t"

text \<open>
  \<open>UTC(t)\<close> of ECMAScript: the instant of a local time value. A local time that
  occurs twice (the clocks are set back) is the earlier of its two instants; a local
  time that is skipped (the clocks are set forward) is read with the offset before
  the transition.
\<close>

fun utc_from :: "int \<Rightarrow> (instant \<times> int) list \<Rightarrow> jsdate \<Rightarrow> instant" where
  "utc_from off [] lt = lt - off"
| "utc_from off ((at, off') # rest) lt =
     (if lt - off < at then lt - off
      else if lt - off' < at then lt - off
      else utc_from off' rest lt)"

definition UTC :: "zone \<Rightarrow> jsdate \<Rightarrow> instant" where
  "UTC z lt = utc_from (base_offset z) (transitions z) lt"

text \<open>
  \<^verbatim>\<open>dt = new Date(d); dt.setHours(h, m, 0, 0)\<close>: the instant of the given time of day
  on the local calendar day of \<open>d\<close>; hours past 23 or minutes past 59 carry over, as
  in JavaScript.
\<close>

definition setHours :: "zone \<Rightarrow> instant \<Rightarrow> nat \<Rightarrow> nat \<Rightarrow> instant" where
  "setHours z d h m =
     UTC z (dateOnly (LocalTime z d) + int h * 3600000 + int m * 60000)"

section \<open>Time-slot generator\<close>

text \<open>The body of the inner loop: \<^verbatim>\<open>`${h}:${m}`\<close> with both numbers padded to two digits.\<close>

definition slot_string :: "nat \<Rightarrow> nat \<Rightarrow> string" where
  "slot_string hour minute =
     (let h = padStart (toString hour) 2 ''0'';
          m = padStart (toString minute) 2 ''0''
      in h @ '':'' @ m)"

text \<open>\<^verbatim>\<open>for (let minute = 0; minute < 60; minute += 15) slots.push(...)\<close>\<close>

function minute_loop :: "nat \<Rightarrow> nat \<Rightarrow> string list \<Rightarrow> string list" where
  "minute_loop hour minute slots =
     (if minute < 60 then minute_loop hour (minute + 15) (slots @ [slot_string hour minute])
      else slots)"
  by pat_completeness auto
termination
  by (relation "measure (\<lambda>(hour, minute, slots). 60 - minute)") auto

text \<open>\<^verbatim>\<open>for (let hour = 0; hour < 24; hour++) { ... }\<close>\<close>

function hour_loop :: "nat \<Rightarrow> string list \<Rightarrow> string list" where
  "hour_loop hour slots =
     (if hour < 24 then hour_loop (hour + 1) (minute_loop hour 0 slots) else slots)"
  by pat_completeness auto
termination
  by (relation "measure (\<lambda>(hour, slots). 24 - hour)") auto

definition generateTimeSlots :: "string list" where
  "generateTimeSlots = hour_loop 0 []"

definition TIME_SLOTS :: "string list" where
  "TIME_SLOTS = generateTimeSlots"

section \<open>Availability filter\<close>

text \<open>
  The predicate of \<^verbatim>\<open>TIME_SLOTS.filter(slot => ...)\<close> in \<^verbatim>\<open>getAvailableTimeSlots\<close>.
  A comparison with \<^verbatim>\<open>NaN\<close> or \<^verbatim>\<open>undefined\<close> is false.
\<close>

definition slot_after :: "nat \<Rightarrow> nat \<Rightarrow> string \<Rightarrow> bool" where
  "slot_after currentHour currentMinute slot =
     (case split_hm slot of
        (Some h, Some m) \<Rightarrow> h > currentHour \<or> (h = currentHour \<and> m > currentMinute)
      | (Some h, None) \<Rightarrow> h > currentHour
      | (None, m) \<Rightarrow> False)"

text \<open>
  \<open>now\<close> is \<^verbatim>\<open>new Date()\<close> of the render, and \<^verbatim>\<open>today\<close> its local midnight.
  \<open>isStart\<close> is a parameter of the source function that its body never reads.
\<close>

definition today :: "jsdate \<Rightarrow> jsdate" where
  "today now = dateOnly now"

definition getAvailableTimeSlots :: "jsdate \<Rightarrow> jsdate option \<Rightarrow> bool \<Rightarrow> string list" where
  "getAvailableTimeSlots now selectedDate isStart =
     (case selectedDate of
        None \<Rightarrow> TIME_SLOTS
      | Some sd \<Rightarrow>
          (let selectedDateOnly = dateOnly sd;
               isToday = (selectedDateOnly = today now)
           in if \<not> isToday then TIME_SLOTS
              else (let currentHour = getHours now;
                        currentMinute = getMinutes now
                    in filter (slot_after currentHour currentMinute) TIME_SLOTS)))"

definition availableStartTimeSlots :: "jsdate \<Rightarrow> jsdate option \<Rightarrow> string list" where
  "availableStartTimeSlots now startDate = getAvailableTimeSlots now startDate True"

definition availableEndTimeSlots ::
  "jsdate \<Rightarrow> jsdate option \<Rightarrow> string \<Rightarrow> jsdate option \<Rightarrow> string list" where
  "availableEndTimeSlots now startDate startTime endDate =
     (let slots = getAvailableTimeSlots now endDate False
      in case (startDate, endDate) of
           (Some sd, Some ed) \<Rightarrow>
             if toDateString sd = toDateString ed
             then filter (\<lambda>slot. slot > startTime) slots
             else slots
         | _ \<Rightarrow> slots)"

section \<open>Meeting form: start and end\<close>

text \<open>The four pieces of React state that hold the range being edited.\<close>

record meeting_form =
  startDate :: "instant option"
  startTime :: string
  endDate :: "instant option"
  endTime :: string

text \<open>
  \<^verbatim>\<open>const [h, m] = time.split(":").map(Number); const dt = new Date(date);
  dt.setHours(h, m, 0, 0)\<close>, as written in the effect and in \<^verbatim>\<open>buildISODateTime\<close>.
  \<^verbatim>\<open>setHours\<close> with a \<^verbatim>\<open>NaN\<close> argument makes the date invalid: \<open>None\<close>.
\<close>

definition dateAtTime :: "zone \<Rightarrow> instant \<Rightarrow> string \<Rightarrow> instant option" where
  "dateAtTime z date time =
     (case split_hm time of
        (Some h, Some m) \<Rightarrow> Some (setHours z date h m)
      | _ \<Rightarrow> None)"

text \<open>
  The body of the effect \<^verbatim>\<open>useEffect(() => {...}, [startDate, startTime])\<close>. An
  undefined date and an empty string are falsy. A comparison with an invalid date
  is false, so nothing is adjusted then. The hour is added to the time value
  (\<^verbatim>\<open>startDateTime.getTime() + 60 * 60 * 1000\<close>), and \<^verbatim>\<open>format\<close> prints the local time
  of the result.
\<close>

definition autoAdjustEnd :: "zone \<Rightarrow> meeting_form \<Rightarrow> meeting_form" where
  "autoAdjustEnd z f =
     (case startDate f of
        None \<Rightarrow> f
      | Some sd \<Rightarrow>
          if startTime f = [] then f
          else (case endDate f of
                  None \<Rightarrow> f
                | Some ed \<Rightarrow>
                    if endTime f = [] then f
                    else (case (dateAtTime z sd (startTime f), dateAtTime z ed (endTime f)) of
                            (Some startDateTime, Some endDateTime) \<Rightarrow>
                              if endDateTime \<le> startDateTime
                              then (let newEnd = startDateTime + 60 * 60 * 1000
                                    in f\<lparr>endDate := Some newEnd,
                                         endTime := format_HHmm (LocalTime z newEnd)\<rparr>)
                              else f
                          | _ \<Rightarrow> f)))"

text \<open>
  The four setters as the pickers call them, each followed by the render it causes.
  The effect's dependency list is \<^verbatim>\<open>[startDate, startTime]\<close>: React runs the effect
  after a render in which one of the two differs from the previous render, and not
  otherwise. A date picked in the calendar is a new \<^verbatim>\<open>Date\<close> object, so it always
  differs; a string differs when its value does (setting the same string does not
  even render again). The effect's own writes are to \<^verbatim>\<open>endDate\<close> and \<^verbatim>\<open>endTime\<close>,
  which are not dependencies.
\<close>

definition setStartDate :: "zone \<Rightarrow> meeting_form \<Rightarrow> instant option \<Rightarrow> meeting_form" where
  "setStartDate z f d = autoAdjustEnd z (f\<lparr>startDate := d\<rparr>)"

definition setStartTime :: "zone \<Rightarrow> meeting_form \<Rightarrow> string \<Rightarrow> meeting_form" where
  "setStartTime z f t =
     (if t = startTime f then f else autoAdjustEnd z (f\<lparr>startTime := t\<rparr>))"

definition setEndDate :: "meeting_form \<Rightarrow> instant option \<Rightarrow> meeting_form" where
  "setEndDate f d = f\<lparr>endDate := d\<rparr>"

definition setEndTime :: "meeting_form \<Rightarrow> string \<Rightarrow> meeting_form" where
  "setEndTime f t = f\<lparr>endTime := t\<rparr>"

section \<open>Meeting time resolver and submit\<close>

text \<open>
  What the code throws or lets through: the errors it constructs itself, the
  \<^verbatim>\<open>RangeError\<close> of \<^verbatim>\<open>toISOString\<close>, the \<^verbatim>\<open>SyntaxError\<close> of \<^verbatim>\<open>response.json()\<close> on a body
  that is not JSON, and the \<^verbatim>\<open>TypeError\<close> with which \<^verbatim>\<open>fetch\<close> rejects.
\<close>

datatype exn = Error string | RangeError string | SyntaxError string | TypeError string

fun message :: "exn \<Rightarrow> string" where
  "message (Error m) = m"
| "message (RangeError m) = m"
| "message (SyntaxError m) = m"
| "message (TypeError m) = m"

text \<open>
  The civil date (year, month 1-12, day 1-31) of a day counted from 1 January 1970,
  in the proleptic Gregorian calendar, as \<^verbatim>\<open>Date\<close> computes it.
\<close>

definition civil_from_days :: "int \<Rightarrow> int \<times> nat \<times> nat" where
  "civil_from_days days =
     (let z = days + 719468;
          era = z div 146097;
          doe = z - era * 146097;
          yoe = (doe - doe div 1460 + doe div 36524 - doe div 146096) div 365;
          doy = doe - (365 * yoe + yoe div 4 - yoe div 100);
          mp = (5 * doy + 2) div 153;
          d = doy - (153 * mp + 2) div 5 + 1;
          m = (if mp < 10 then mp + 3 else mp - 9);
          y = yoe + era * 400 + (if m \<le> 2 then 1 else 0)
      in (y, nat m, nat d))"

text \<open>
  \<^verbatim>\<open>d.toISOString()\<close> of a valid date: its time value printed in UTC as
  \<^verbatim>\<open>YYYY-MM-DDTHH:mm:ss.sssZ\<close>, with a signed six-digit year outside 0-9999.
\<close>

definition toISOString :: "instant \<Rightarrow> string" where
  "toISOString d =
     (let (y, mo, dd) = civil_from_days (d div msPerDay);
          t = nat (d mod msPerDay);
          year = (if 0 \<le> y \<and> y \<le> 9999 then padStart (toString (nat y)) 4 ''0''
                  else (if y < 0 then ''-'' else ''+'') @ padStart (toString (nat \<bar>y\<bar>)) 6 ''0'')
      in year @ ''-'' @ padStart (toString mo) 2 ''0'' @ ''-'' @ padStart (toString dd) 2 ''0''
         @ ''T'' @ padStart (toString (t div 3600000)) 2 ''0''
         @ '':'' @ padStart (toString (t mod 3600000 div 60000)) 2 ''0''
         @ '':'' @ padStart (toString (t mod 60000 div 1000)) 2 ''0''
         @ ''.'' @ padStart (toString (t mod 1000)) 3 ''0'' @ ''Z'')"

text \<open>
  \<^verbatim>\<open>buildISODateTime\<close>. On an invalid date \<^verbatim>\<open>toISOString\<close> throws a \<^verbatim>\<open>RangeError\<close>.
\<close>

definition buildISODateTime :: "zone \<Rightarrow> instant option \<Rightarrow> string \<Rightarrow> exn + string" where
  "buildISODateTime z date time =
     (case date of
        None \<Rightarrow> Inr []
      | Some d \<Rightarrow>
          (case dateAtTime z d time of
             None \<Rightarrow> Inl (RangeError ''Invalid time value'')
           | Some dt \<Rightarrow> Inr (toISOString dt)))"

record form_data =
  fd_subject :: string
  fd_description :: string
  fd_join_url :: string
  fd_lead_id :: string
  fd_contact_id :: string
  fd_status :: string

record meeting_data =
  md_subject :: string
  md_description :: "string option"
  md_start_time :: string
  md_end_time :: string
  md_join_url :: "string option"
  md_lead_id :: "string option"
  md_contact_id :: "string option"
  md_status :: string
  md_created_by :: "string option"

text \<open>\<^verbatim>\<open>s || null\<close> on a string.\<close>

definition or_null :: "string \<Rightarrow> string option" where
  "or_null s = (if s = [] then None else Some s)"

text \<open>\<^verbatim>\<open>s || fallback\<close> on a string.\<close>

definition or_else :: "string \<Rightarrow> string \<Rightarrow> string" where
  "or_else s fallback = (if s = [] then fallback else s)"

datatype toast = Toast (title: string) (description: string) (destructive: bool)

datatype store_call = Update string meeting_data | Insert meeting_data

record submit_outcome =
  shown :: toast
  written :: "store_call option"
  closed :: bool

text \<open>
  \<^verbatim>\<open>handleSubmit\<close>. \<open>user_id\<close> is \<^verbatim>\<open>user?.id\<close>, \<open>meeting_id\<close> the id of the meeting
  being edited (\<open>None\<close> for a new one), and \<open>store_error\<close> the error the table write
  comes back with, if any. The outcome is the notification shown, the write sent to
  the store, and whether the dialog was closed (\<^verbatim>\<open>onSuccess(); onOpenChange(false)\<close>).
\<close>

definition handleSubmit ::
  "zone \<Rightarrow> string option \<Rightarrow> string option \<Rightarrow> form_data \<Rightarrow> meeting_form \<Rightarrow>
     exn option \<Rightarrow> submit_outcome" where
  "handleSubmit z user_id meeting_id formData f store_error =
     (if fd_subject formData = [] \<or> startDate f = None \<or> endDate f = None
      then \<lparr>shown = Toast ''Missing fields'' ''Please fill in all required fields'' True,
            written = None, closed = False\<rparr>
      else
        (case buildISODateTime z (startDate f) (startTime f) of
           Inl e \<Rightarrow> \<lparr>shown = Toast ''Error'' (or_else (message e) ''Failed to save meeting'') True,
                     written = None, closed = False\<rparr>
         | Inr start_time \<Rightarrow>
             (case buildISODateTime z (endDate f) (endTime f) of
                Inl e \<Rightarrow> \<lparr>shown = Toast ''Error'' (or_else (message e) ''Failed to save meeting'') True,
                          written = None, closed = False\<rparr>
              | Inr end_time \<Rightarrow>
                  (let meetingData =
                         \<lparr>md_subject = fd_subject formData,
                          md_description = or_null (fd_description formData),
                          md_start_time = start_time,
                          md_end_time = end_time,
                          md_join_url = or_null (fd_join_url formData),
                          md_lead_id = or_null (fd_lead_id formData),
                          md_contact_id = or_null (fd_contact_id formData),
                          md_status = fd_status formData,
                          md_created_by = user_id\<rparr>;
                       call = (case meeting_id of
                                 Some mid \<Rightarrow> Update mid meetingData
                               | None \<Rightarrow> Insert meetingData)
                   in case store_error of
                        Some e \<Rightarrow>
                          \<lparr>shown = Toast ''Error'' (or_else (message e) ''Failed to save meeting'') True,
                           written = Some call, closed = False\<rparr>
                      | None \<Rightarrow>
                          \<lparr>shown = Toast ''Success''
                                     (case meeting_id of
                                        Some mid \<Rightarrow> ''Meeting updated successfully''
                                      | None \<Rightarrow> ''Meeting created successfully'') False,
                           written = Some call, closed = True\<rparr>))))"

section \<open>Permission gate\<close>

record PagePermission =
  route :: string
  admin_access :: bool
  manager_access :: bool
  user_access :: bool

text \<open>
  The \<^verbatim>\<open>switch\<close> on the role, the same in the sidebar and in the dashboard:
  \<^verbatim>\<open>'admin'\<close>, \<^verbatim>\<open>'manager'\<close>, and \<^verbatim>\<open>default\<close> (with \<^verbatim>\<open>'user'\<close> falling into it).
\<close>

definition role_flag :: "string \<Rightarrow> PagePermission \<Rightarrow> bool" where
  "role_flag userRole permission =
     (if userRole = ''admin'' then admin_access permission
      else if userRole = ''manager'' then manager_access permission
      else user_access permission)"

text \<open>The predicate of \<^verbatim>\<open>allMenuItems.filter(item => ...)\<close> in \<^verbatim>\<open>AppSidebar\<close>.\<close>

definition menuItemVisible :: "PagePermission list \<Rightarrow> string \<Rightarrow> string \<Rightarrow> bool" where
  "menuItemVisible permissions userRole item_route =
     (case find (\<lambda>p. route p = item_route) permissions of
        None \<Rightarrow> True
      | Some permission \<Rightarrow> role_flag userRole permission)"

record menu_item =
  item_title :: string
  item_url :: string
  item_route :: string

definition allMenuItems :: "menu_item list" where
  "allMenuItems =
     [\<lparr>item_title = ''Dashboard'', item_url = ''/'', item_route = ''/dashboard''\<rparr>,
      \<lparr>item_title = ''Accounts'', item_url = ''/accounts'', item_route = ''/accounts''\<rparr>,
      \<lparr>item_title = ''Contacts'', item_url = ''/contacts'', item_route = ''/contacts''\<rparr>,
      \<lparr>item_title = ''Leads'', item_url = ''/leads'', item_route = ''/leads''\<rparr>,
      \<lparr>item_title = ''Meetings'', item_url = ''/meetings'', item_route = ''/meetings''\<rparr>,
      \<lparr>item_title = ''Deals'', item_url = ''/deals'', item_route = ''/deals''\<rparr>,
      \<lparr>item_title = ''Tasks'', item_url = ''/tasks'', item_route = ''/tasks''\<rparr>,
      \<lparr>item_title = ''Settings'', item_url = ''/settings'', item_route = ''/settings''\<rparr>]"

definition menuItems :: "PagePermission list \<Rightarrow> string \<Rightarrow> menu_item list" where
  "menuItems permissions userRole =
     filter (\<lambda>item. menuItemVisible permissions userRole (item_route item)) allMenuItems"

text \<open>
  \<^verbatim>\<open>hasAccess\<close> of \<^verbatim>\<open>UserDashboard\<close>. Both query results are \<^verbatim>\<open>undefined\<close> (\<open>None\<close>) until
  they have loaded; \<^verbatim>\<open>!userRole\<close> also holds of the empty string, and an empty array
  of permissions is truthy.
\<close>

definition hasAccess :: "PagePermission list option \<Rightarrow> string option \<Rightarrow> string \<Rightarrow> bool" where
  "hasAccess pagePermissions userRole r =
     (case (pagePermissions, userRole) of
        (Some permissions, Some role) \<Rightarrow>
          if role = [] then True
          else (case find (\<lambda>p. route p = r) permissions of
                  None \<Rightarrow> True
                | Some permission \<Rightarrow> role_flag role permission)
      | _ \<Rightarrow> True)"

text \<open>
  The query function of \<^verbatim>\<open>useUserRole\<close>: \<^verbatim>\<open>data?.role || 'user'\<close>, where \<open>None\<close> is a
  user with no row in the role table.
\<close>

definition useUserRole :: "string option \<Rightarrow> string" where
  "useUserRole row_role = (case row_role of None \<Rightarrow> ''user'' | Some role \<Rightarrow> or_else role ''user'')"

section \<open>External meeting provisioner\<close>

text \<open>
  The edge function \<^verbatim>\<open>create-teams-meeting\<close>. Its surroundings are a record: the
  outcome of the session check, the three configuration values, and what each remote
  service does in this run. A \<^verbatim>\<open>fetch\<close> either rejects with an error, or resolves to
  a response; a response has \<^verbatim>\<open>response.ok\<close> and a body, on which \<^verbatim>\<open>response.json()\<close>
  either returns the parsed data or throws, when the body is not JSON.
  Every function returns, with its result, the list of remote calls it made, in order.
\<close>

datatype 'a fetched = Rejected exn | Response bool "exn + 'a"

record Attendee =
  att_email :: string
  att_name :: string

text \<open>The request body after \<^verbatim>\<open>req.json()\<close>; a field the body lacks is \<open>None\<close>.\<close>

record MeetingRequest =
  req_subject :: "string option"
  req_attendees :: "Attendee list option"
  req_startTime :: "string option"
  req_endTime :: "string option"

record auth_user =
  user_id :: string
  user_email :: string

text \<open>The fields the code reads of the three parsed bodies.\<close>

record token_reply =
  error_description :: "string option"
  access_token :: string

record user_reply =
  graph_user_id :: string

record meeting_reply =
  error_code :: "string option"
  error_message :: "string option"
  mr_id :: string
  mr_joinWebUrl :: string
  mr_joinInformation :: string
  mr_subject :: string
  mr_startDateTime :: string
  mr_endDateTime :: string

record env =
  session_user :: "auth_user option"
  AZURE_TENANT_ID :: "string option"
  AZURE_CLIENT_ID :: "string option"
  AZURE_CLIENT_SECRET :: "string option"
  token_response :: "token_reply fetched"
  user_response :: "user_reply fetched"
  meeting_response :: "meeting_reply fetched"
  log_fails :: bool

record meeting_body =
  startDateTime :: string
  endDateTime :: string
  body_subject :: string
  lobbyBypassScope :: string
  isDialInBypassEnabled :: bool
  allowedPresenters :: string

record audit_details =
  ad_meeting_id :: string
  ad_subject :: string
  ad_attendee_count :: nat
  ad_created_by :: string
  ad_join_url :: string

datatype call =
    AuthGetUser
  | TokenRequest string string string
  | GraphGetUser string string
  | GraphCreateMeeting string string meeting_body
  | LogSecurityEvent audit_details

record online_meeting =
  om_id :: string
  om_joinUrl :: string
  om_joinInformation :: string
  om_subject :: string
  om_startDateTime :: string
  om_endDateTime :: string

datatype response_body =
    NoBody
  | ErrorBody string
  | ErrorDetails string string
  | Success online_meeting string

record response =
  status :: nat
  body :: response_body

text \<open>\<^verbatim>\<open>!s\<close> on a string that may be undefined.\<close>

definition falsy :: "string option \<Rightarrow> bool" where
  "falsy s = (s = None \<or> s = Some [])"

text \<open>\<^verbatim>\<open>s || fallback\<close> on a string that may be undefined.\<close>

definition opt_or_else :: "string option \<Rightarrow> string \<Rightarrow> string" where
  "opt_or_else s fallback = (case s of None \<Rightarrow> fallback | Some v \<Rightarrow> or_else v fallback)"

text \<open>
  \<^verbatim>\<open>getAccessToken\<close>. The body is parsed (\<^verbatim>\<open>await response.json()\<close>) before
  \<^verbatim>\<open>response.ok\<close> is tested.
\<close>

definition getAccessToken :: "env \<Rightarrow> call list \<times> (exn + string)" where
  "getAccessToken e =
     (case (AZURE_TENANT_ID e, AZURE_CLIENT_ID e, AZURE_CLIENT_SECRET e) of
        (Some tenantId, Some clientId, Some clientSecret) \<Rightarrow>
          if tenantId = [] \<or> clientId = [] \<or> clientSecret = []
          then ([], Inl (Error ''Missing Azure credentials. Please configure AZURE_TENANT_ID, AZURE_CLIENT_ID, and AZURE_CLIENT_SECRET.''))
          else ([TokenRequest tenantId clientId clientSecret],
                case token_response e of
                  Rejected error \<Rightarrow> Inl error
                | Response ok (Inl error) \<Rightarrow> Inl error
                | Response ok (Inr data) \<Rightarrow>
                    if \<not> ok
                    then Inl (Error (opt_or_else (error_description data)
                                       ''Failed to get access token from Azure AD''))
                    else Inr (access_token data))
      | _ \<Rightarrow> ([], Inl (Error ''Missing Azure credentials. Please configure AZURE_TENANT_ID, AZURE_CLIENT_ID, and AZURE_CLIENT_SECRET.'')))"

text \<open>The message thrown when the directory lookup of the organizer is not OK.\<close>

definition cannot_find_user :: "string \<Rightarrow> string" where
  "cannot_find_user organizerEmail =
     ''Cannot find user in Azure AD: '' @ organizerEmail @ ''. '' @
     ''Please ensure the Azure App has User.Read.All permission with admin consent, '' @
     ''or the user exists in your Azure AD tenant.''"

text \<open>
  \<^verbatim>\<open>createOnlineMeeting\<close>. Of the request it reads the subject and the two times (the
  attendees are not sent to Graph). When the lookup response is not OK, its body is
  parsed for the log (\<^verbatim>\<open>const errorData = await userResponse.json()\<close>) before the
  diagnostic error is thrown; when that parse throws, its error is what leaves the
  function. The response to the creation is parsed before its \<^verbatim>\<open>ok\<close> is tested.
\<close>

definition createOnlineMeeting ::
  "env \<Rightarrow> string \<Rightarrow> string \<Rightarrow> string \<Rightarrow> string \<Rightarrow> string \<Rightarrow> call list \<times> (exn + online_meeting)" where
  "createOnlineMeeting e accessToken subject start_time end_time organizerEmail =
     (let lookup = [GraphGetUser accessToken organizerEmail]
      in case user_response e of
           Rejected error \<Rightarrow> (lookup, Inl error)
         | Response user_ok parsed \<Rightarrow>
             if \<not> user_ok
             then (case parsed of
                     Inl error \<Rightarrow> (lookup, Inl error)
                   | Inr errorData \<Rightarrow>
                       (lookup, Inl (Error (cannot_find_user organizerEmail))))
             else
               (case parsed of
                  Inl error \<Rightarrow> (lookup, Inl error)
                | Inr userData \<Rightarrow>
                    (let organizerUserId = graph_user_id userData;
                         meetingBody = \<lparr>startDateTime = start_time, endDateTime = end_time,
                                        body_subject = subject, lobbyBypassScope = ''everyone'',
                                        isDialInBypassEnabled = True,
                                        allowedPresenters = ''everyone''\<rparr>;
                         calls = lookup @
                                   [GraphCreateMeeting accessToken organizerUserId meetingBody]
                     in case meeting_response e of
                          Rejected error \<Rightarrow> (calls, Inl error)
                        | Response meeting_ok (Inl error) \<Rightarrow> (calls, Inl error)
                        | Response meeting_ok (Inr meetingData) \<Rightarrow>
                            if \<not> meeting_ok
                            then (calls,
                                  if error_code meetingData = Some ''AuthenticationError''
                                  then Inl (Error (''Authentication error with Microsoft Graph. '' @
                                         ''Please ensure the Azure App has OnlineMeetings.ReadWrite.All permission with admin consent.''))
                                  else if error_code meetingData = Some ''ResourceNotFound''
                                  then Inl (Error (''User '' @ organizerEmail @
                                         '' does not have a Teams license or is not enabled for online meetings.''))
                                  else Inl (Error (opt_or_else (error_message meetingData)
                                                     ''Failed to create Teams meeting'')))
                            else (calls,
                                  Inr \<lparr>om_id = mr_id meetingData,
                                       om_joinUrl = mr_joinWebUrl meetingData,
                                       om_joinInformation = mr_joinInformation meetingData,
                                       om_subject = mr_subject meetingData,
                                       om_startDateTime = mr_startDateTime meetingData,
                                       om_endDateTime = mr_endDateTime meetingData\<rparr>))))"

text \<open>The \<^verbatim>\<open>catch\<close> of the handler: status 500 with the error's message.\<close>

definition internal_error :: "exn \<Rightarrow> response" where
  "internal_error error =
     \<lparr>status = 500,
      body = ErrorDetails (or_else (message error) ''Internal server error'') (message error)\<rparr>"

text \<open>The test \<^verbatim>\<open>!subject || !attendees || !startTime || !endTime\<close>; an array, empty or not, is truthy.\<close>

definition missing_required_fields :: "MeetingRequest \<Rightarrow> bool" where
  "missing_required_fields r =
     (falsy (req_subject r) \<or> req_attendees r = None \<or>
      falsy (req_startTime r) \<or> falsy (req_endTime r))"

definition bad_request :: response where
  "bad_request =
     \<lparr>status = 400,
      body = ErrorBody ''Missing required fields: subject, attendees, startTime, endTime''\<rparr>"

text \<open>
  The handler passed to \<^verbatim>\<open>serve\<close>: the request's method and parsed body in, the
  response and the remote calls out. A failure to write the audit record is caught and
  logged, so \<open>log_fails\<close> changes nothing in the response.
\<close>

definition serve :: "env \<Rightarrow> string \<Rightarrow> MeetingRequest \<Rightarrow> call list \<times> response" where
  "serve e method r =
     (if method = ''OPTIONS'' then ([], \<lparr>status = 200, body = NoBody\<rparr>)
      else
        (case session_user e of
           None \<Rightarrow> ([AuthGetUser], \<lparr>status = 401, body = ErrorBody ''Authentication required''\<rparr>)
         | Some user \<Rightarrow>
             if method \<noteq> ''POST''
             then ([AuthGetUser], \<lparr>status = 405, body = ErrorBody ''Method not allowed''\<rparr>)
             else if missing_required_fields r then ([AuthGetUser], bad_request)
             else
               (case (req_subject r, req_attendees r, req_startTime r, req_endTime r) of
                  (Some subject, Some attendees, Some start_time, Some end_time) \<Rightarrow>
                    (case getAccessToken e of
                       (token_calls, Inl error) \<Rightarrow>
                         (AuthGetUser # token_calls, internal_error error)
                     | (token_calls, Inr accessToken) \<Rightarrow>
                         (let organizerEmail = user_email user
                          in case createOnlineMeeting e accessToken subject start_time end_time
                                    organizerEmail of
                               (graph_calls, Inl error) \<Rightarrow>
                                 (AuthGetUser # token_calls @ graph_calls, internal_error error)
                             | (graph_calls, Inr meeting) \<Rightarrow>
                                 (AuthGetUser # token_calls @ graph_calls @
                                    [LogSecurityEvent
                                       \<lparr>ad_meeting_id = om_id meeting, ad_subject = subject,
                                        ad_attendee_count = length attendees,
                                        ad_created_by = user_id user,
                                        ad_join_url = om_joinUrl meeting\<rparr>],
                                  \<lparr>status = 200,
                                   body = Success meeting ''Teams meeting created successfully''\<rparr>)))
                | _ \<Rightarrow> ([AuthGetUser], bad_request))))"

section \<open>Notions the properties are stated with\<close>

text \<open>The hour and minute pairs the two loops of the generator run through, in loop order.\<close>

definition slot_grid :: "(nat \<times> nat) list" where
  "slot_grid = List.product [0..<24] [0, 15, 30, 45]"

text \<open>The minute of the day a slot string denotes, read the way the source reads a slot.\<close>

definition minutes_of_slot :: "string \<Rightarrow> nat option" where
  "minutes_of_slot slot =
     (case split_hm slot of (Some h, Some m) \<Rightarrow> Some (60 * h + m) | _ \<Rightarrow> None)"

text \<open>Two digits, a colon, two digits.\<close>

definition zero_padded_HHMM :: "string \<Rightarrow> bool" where
  "zero_padded_HHMM s =
     (case s of
        [h1, h2, c, m1, m2] \<Rightarrow>
          is_digit h1 \<and> is_digit h2 \<and> c = CHR '':'' \<and> is_digit m1 \<and> is_digit m2
      | _ \<Rightarrow> False)"

text \<open>
  The start and the end of the range as instants: the date state combined with the
  time-of-day state, the way the effect and the resolver combine them.
\<close>

definition start_instant :: "zone \<Rightarrow> meeting_form \<Rightarrow> instant option" where
  "start_instant z f =
     (case startDate f of None \<Rightarrow> None | Some d \<Rightarrow> dateAtTime z d (startTime f))"

definition end_instant :: "zone \<Rightarrow> meeting_form \<Rightarrow> instant option" where
  "end_instant z f =
     (case endDate f of None \<Rightarrow> None | Some d \<Rightarrow> dateAtTime z d (endTime f))"

text \<open>
  Europe/Berlin in 2025: one hour ahead of UTC, two hours from 30 March 01:00 UTC
  to 26 October 01:00 UTC. Asia/Kolkata: five and a half hours ahead, all year.
\<close>

definition europe_berlin_2025 :: zone where
  "europe_berlin_2025 =
     \<lparr>base_offset = 3600000,
      transitions = [(1743296400000, 7200000), (1761440400000, 3600000)]\<rparr>"

definition asia_kolkata :: zone where
  "asia_kolkata = \<lparr>base_offset = 19800000, transitions = []\<rparr>"

text \<open>The remote calls by kind: any call to the identity provider or to Graph, the
  directory lookup, and the creation of the online meeting.\<close>

definition provider_call :: "call \<Rightarrow> bool" where
  "provider_call c =
     (case c of
        TokenRequest t i s \<Rightarrow> True
      | GraphGetUser t m \<Rightarrow> True
      | GraphCreateMeeting t u b \<Rightarrow> True
      | _ \<Rightarrow> False)"

definition lookup_call :: "call \<Rightarrow> bool" where
  "lookup_call c = (case c of GraphGetUser t m \<Rightarrow> True | _ \<Rightarrow> False)"

definition create_call :: "call \<Rightarrow> bool" where
  "create_call c = (case c of GraphCreateMeeting t u b \<Rightarrow> True | _ \<Rightarrow> False)"

text \<open>
  The three configuration values are set and each service answers OK with a JSON
  body.
\<close>

definition services_ok :: "env \<Rightarrow> bool" where
  "services_ok e =
     (\<not> falsy (AZURE_TENANT_ID e) \<and> \<not> falsy (AZURE_CLIENT_ID e)
      \<and> \<not> falsy (AZURE_CLIENT_SECRET e)
      \<and> (case token_response e of Response ok (Inr data) \<Rightarrow> ok | _ \<Rightarrow> False)
      \<and> (case user_response e of Response ok (Inr data) \<Rightarrow> ok | _ \<Rightarrow> False)
      \<and> (case meeting_response e of Response ok (Inr data) \<Rightarrow> ok | _ \<Rightarrow> False))"

text \<open>
  Concrete surroundings and requests for the examples: all services up; the
  directory answering not-OK with a JSON error body; the directory answering not-OK
  with an empty body, on which the parse throws.
\<close>

definition sample_env :: env where
  "sample_env =
     \<lparr>session_user = Some \<lparr>user_id = ''u1'', user_email = ''ann@example.com''\<rparr>,
      AZURE_TENANT_ID = Some ''tenant'', AZURE_CLIENT_ID = Some ''client'',
      AZURE_CLIENT_SECRET = Some ''secret'',
      token_response =
        Response True (Inr \<lparr>error_description = None, access_token = ''tok''\<rparr>),
      user_response = Response True (Inr \<lparr>graph_user_id = ''g1''\<rparr>),
      meeting_response =
        Response True
          (Inr \<lparr>error_code = None, error_message = None, mr_id = ''m1'',
                mr_joinWebUrl = ''https://teams.example/m1'', mr_joinInformation = ''join'',
                mr_subject = ''Demo'', mr_startDateTime = ''2025-06-01T07:00:00.000Z'',
                mr_endDateTime = ''2025-06-01T08:00:00.000Z''\<rparr>),
      log_fails = False\<rparr>"

definition no_directory_env :: env where
  "no_directory_env =
     sample_env\<lparr>user_response := Response False (Inr \<lparr>graph_user_id = []\<rparr>)\<rparr>"

definition empty_body_env :: env where
  "empty_body_env =
     sample_env\<lparr>user_response :=
                  Response False (Inl (SyntaxError ''Unexpected end of JSON input''))\<rparr>"

definition sample_request :: "string \<Rightarrow> Attendee list \<Rightarrow> MeetingRequest" where
  "sample_request subject attendees =
     \<lparr>req_subject = Some subject, req_attendees = Some attendees,
      req_startTime = Some ''2025-06-01T07:00:00.000Z'',
      req_endTime = Some ''2025-06-01T08:00:00.000Z''\<rparr>"

definition sample_permissions :: "PagePermission list" where
  "sample_permissions =
     [\<lparr>route = ''/deals'', admin_access = True, manager_access = False, user_access = False\<rparr>,
      \<lparr>route = ''/tasks'', admin_access = False, manager_access = True, user_access = True\<rparr>]"

section \<open>Theorems\<close>

lemma generateTimeSlots_eq:
  "generateTimeSlots =
    [''00:00'', ''00:15'', ''00:30'', ''00:45'', ''01:00'', ''01:15'', ''01:30'', ''01:45'',
     ''02:00'', ''02:15'', ''02:30'', ''02:45'', ''03:00'', ''03:15'', ''03:30'', ''03:45'',
     ''04:00'', ''04:15'', ''04:30'', ''04:45'', ''05:00'', ''05:15'', ''05:30'', ''05:45'',
     ''06:00'', ''06:15'', ''06:30'', ''06:45'', ''07:00'', ''07:15'', ''07:30'', ''07:45'',
     ''08:00'', ''08:15'', ''08:30'', ''08:45'', ''09:00'', ''09:15'', ''09:30'', ''09:45'',
     ''10:00'', ''10:15'', ''10:30'', ''10:45'', ''11:00'', ''11:15'', ''11:30'', ''11:45'',
     ''12:00'', ''12:15'', ''12:30'', ''12:45'', ''13:00'', ''13:15'', ''13:30'', ''13:45'',
     ''14:00'', ''14:15'', ''14:30'', ''14:45'', ''15:00'', ''15:15'', ''15:30'', ''15:45'',
     ''16:00'', ''16:15'', ''16:30'', ''16:45'', ''17:00'', ''17:15'', ''17:30'', ''17:45'',
     ''18:00'', ''18:15'', ''18:30'', ''18:45'', ''19:00'', ''19:15'', ''19:30'', ''19:45'',
     ''20:00'', ''20:15'', ''20:30'', ''20:45'', ''21:00'', ''21:15'', ''21:30'', ''21:45'',
     ''22:00'', ''22:15'', ''22:30'', ''22:45'', ''23:00'', ''23:15'', ''23:30'', ''23:45'']"
  by code_simp

subsection \<open>Time-slot generator\<close>

lemma slot_grid_eq: "map (\<lambda>(h, m). slot_string h m) slot_grid = generateTimeSlots"
  unfolding generateTimeSlots_eq by code_simp

lemma grid_parse:
  "list_all (\<lambda>(h, m). split_hm (slot_string h m) = (Some h, Some m)) slot_grid"
  by code_simp

lemma length_slots: "length generateTimeSlots = 96"
  unfolding generateTimeSlots_eq by simp

lemma distinct_slots: "distinct generateTimeSlots"
  unfolding generateTimeSlots_eq by code_simp

text \<open>
  Claim C5. The generator takes no input and yields 96 slots, from \<open>00:00\<close> to
  \<open>23:45\<close>, each a zero-padded \<open>HH:MM\<close> string, strictly increasing as strings, and
  the \<open>k\<close>-th of them (counting from 0) denotes minute \<open>15 * k\<close> of the day, so that
  neighbours are 15 minutes apart.
\<close>

theorem generateTimeSlots_spec:
  "length generateTimeSlots = 96
   \<and> hd generateTimeSlots = ''00:00''
   \<and> last generateTimeSlots = ''23:45''
   \<and> sorted_wrt (<) generateTimeSlots
   \<and> list_all zero_padded_HHMM generateTimeSlots
   \<and> map minutes_of_slot generateTimeSlots = map (\<lambda>k. Some (15 * k)) [0..<96]"
proof -
  have b: "hd generateTimeSlots = ''00:00''" unfolding generateTimeSlots_eq by simp
  have c: "last generateTimeSlots = ''23:45''" unfolding generateTimeSlots_eq by simp
  have d: "sorted_wrt (<) generateTimeSlots" unfolding generateTimeSlots_eq by code_simp
  have e: "list_all zero_padded_HHMM generateTimeSlots"
    unfolding generateTimeSlots_eq by code_simp
  have f: "map minutes_of_slot generateTimeSlots = map (\<lambda>k. Some (15 * k)) [0..<96]"
    unfolding generateTimeSlots_eq by code_simp
  from length_slots b c d e f show ?thesis by blast
qed

subsection \<open>Availability filter\<close>

lemma same_day_iff: "(dateOnly a = dateOnly b) = (toDateString a = toDateString b)"
proof -
  have "x - x mod msPerDay = x div msPerDay * msPerDay" for x :: int
    by (simp add: minus_mod_eq_div_mult)
  then show ?thesis
    unfolding dateOnly_def toDateString_def by (simp add: msPerDay_def)
qed

lemma slot_after_grid:
  "(h, m) \<in> set slot_grid \<Longrightarrow>
     slot_after H M (slot_string h m) = (H < h \<or> (h = H \<and> M < m))"
  using grid_parse unfolding list_all_iff slot_after_def by fastforce

lemma filter_slots:
  "filter (slot_after H M) generateTimeSlots =
     map (\<lambda>(h, m). slot_string h m) (filter (\<lambda>(h, m). H < h \<or> (h = H \<and> M < m)) slot_grid)"
proof -
  have "filter (slot_after H M) (map (\<lambda>(h, m). slot_string h m) slot_grid) =
        map (\<lambda>(h, m). slot_string h m)
          (filter (slot_after H M \<circ> (\<lambda>(h, m). slot_string h m)) slot_grid)"
    by (simp add: filter_map)
  also have "filter (slot_after H M \<circ> (\<lambda>(h, m). slot_string h m)) slot_grid =
             filter (\<lambda>(h, m). H < h \<or> (h = H \<and> M < m)) slot_grid"
    by (rule filter_cong) (auto simp: slot_after_grid)
  finally show ?thesis by (simp add: slot_grid_eq)
qed

text \<open>
  Claim C2. For a candidate date that is not on the current calendar day the filter
  returns the generated sequence as it is. For a candidate date on the current
  calendar day it returns, in the generator's order, exactly the slots whose hour is
  greater than the current hour, or equal to it with a minute greater than the
  current minute.
\<close>

theorem getAvailableTimeSlots_spec:
  "(toDateString sd \<noteq> toDateString now \<longrightarrow>
      getAvailableTimeSlots now (Some sd) isStart = generateTimeSlots)
   \<and> (toDateString sd = toDateString now \<longrightarrow>
      getAvailableTimeSlots now (Some sd) isStart =
        map (\<lambda>(h, m). slot_string h m)
          (filter (\<lambda>(h, m). getHours now < h \<or> (h = getHours now \<and> getMinutes now < m))
             slot_grid))"
  by (simp add: getAvailableTimeSlots_def today_def same_day_iff filter_slots Let_def
      TIME_SLOTS_def)

text \<open>
  At 14:07 on day 20240 (1 June 2025): a date on the next day gets all 96 slots; a
  date on the same day gets the slots from \<open>14:15\<close> on, without \<open>14:00\<close>.
\<close>

theorem getAvailableTimeSlots_spec_witness:
  "toDateString 1748822400000 \<noteq> toDateString 1748786820000
   \<and> getAvailableTimeSlots 1748786820000 (Some 1748822400000) True = generateTimeSlots
   \<and> length generateTimeSlots = 96
   \<and> toDateString 1748736000000 = toDateString 1748786820000
   \<and> getHours 1748786820000 = 14 \<and> getMinutes 1748786820000 = 7
   \<and> getAvailableTimeSlots 1748786820000 (Some 1748736000000) True = drop 57 generateTimeSlots
   \<and> ''14:00'' \<notin> set (getAvailableTimeSlots 1748786820000 (Some 1748736000000) True)
   \<and> ''14:15'' \<in> set (getAvailableTimeSlots 1748786820000 (Some 1748736000000) True)"
proof -
  have d1: "toDateString 1748822400000 \<noteq> toDateString 1748786820000"
    by (simp add: toDateString_def msPerDay_def)
  have d2: "toDateString 1748736000000 = toDateString 1748786820000"
    by (simp add: toDateString_def msPerDay_def)
  have h: "getHours 1748786820000 = 14" by (simp add: getHours_def msPerDay_def)
  have m: "getMinutes 1748786820000 = 7" by (simp add: getMinutes_def)
  have g: "map (\<lambda>(h, m). slot_string h m)
          (filter (\<lambda>(h, m). 14 < h \<or> (h = 14 \<and> 7 < m)) slot_grid) = drop 57 generateTimeSlots"
    unfolding generateTimeSlots_eq by code_simp
  have r1: "getAvailableTimeSlots 1748786820000 (Some 1748822400000) True = generateTimeSlots"
    using getAvailableTimeSlots_spec [of 1748822400000 1748786820000 True] d1 by blast
  have r2: "getAvailableTimeSlots 1748786820000 (Some 1748736000000) True
              = drop 57 generateTimeSlots"
    using getAvailableTimeSlots_spec [of 1748736000000 1748786820000 True] d2 h m g by simp
  have n: "''14:00'' \<notin> set (drop 57 generateTimeSlots)"
    unfolding generateTimeSlots_eq by simp
  have y: "''14:15'' \<in> set (drop 57 generateTimeSlots)"
    unfolding generateTimeSlots_eq by simp
  from d1 d2 h m r1 r2 n y length_slots show ?thesis by simp
qed

text \<open>
  Claim C3. When the end date lies on the same calendar day as the start date, every
  slot offered for the end is strictly greater than the selected start slot in the
  lexicographic order of strings.
\<close>

theorem availableEndTimeSlots_after_start:
  "toDateString sd = toDateString ed \<Longrightarrow>
     \<forall>slot \<in> set (availableEndTimeSlots now (Some sd) startSlot (Some ed)). startSlot < slot"
  by (simp add: availableEndTimeSlots_def)

text \<open>
  Start at 00:00 and end at 09:00 of day 20240, start slot \<open>23:00\<close>, seen from the day
  before: three end slots are left, all after \<open>23:00\<close>.
\<close>

theorem availableEndTimeSlots_after_start_witness:
  "toDateString 1748736000000 = toDateString 1748768400000
   \<and> availableEndTimeSlots 1748649600000 (Some 1748736000000) ''23:00'' (Some 1748768400000)
       = [''23:15'', ''23:30'', ''23:45'']
   \<and> list_all (\<lambda>slot. ''23:00'' < slot)
       (availableEndTimeSlots 1748649600000 (Some 1748736000000) ''23:00'' (Some 1748768400000))"
proof -
  have d: "toDateString 1748736000000 = toDateString 1748768400000"
    by (simp add: toDateString_def msPerDay_def)
  have e: "availableEndTimeSlots 1748649600000 (Some 1748736000000) ''23:00''
             (Some 1748768400000) = [''23:15'', ''23:30'', ''23:45'']"
    by (simp add: availableEndTimeSlots_def getAvailableTimeSlots_def today_def dateOnly_def
        toDateString_def msPerDay_def TIME_SLOTS_def generateTimeSlots_eq)
  from d e availableEndTimeSlots_after_start [OF d, of 1748649600000 "''23:00''"]
  show ?thesis unfolding list_all_iff by blast
qed

lemma available_cases:
  "getAvailableTimeSlots now d isStart = generateTimeSlots
   \<or> (\<exists>P. getAvailableTimeSlots now d isStart = filter P generateTimeSlots)"
  by (auto simp: getAvailableTimeSlots_def TIME_SLOTS_def Let_def split: option.split)

lemma available_end_cases:
  "availableEndTimeSlots now sd st ed = getAvailableTimeSlots now ed False
   \<or> (\<exists>P. availableEndTimeSlots now sd st ed = filter P (getAvailableTimeSlots now ed False))"
  by (auto simp: availableEndTimeSlots_def Let_def split: option.split)

lemma subseq_available: "subseq (getAvailableTimeSlots now d isStart) generateTimeSlots"
  using available_cases [of now d isStart] by auto

lemma distinct_available: "distinct (getAvailableTimeSlots now d isStart)"
  using available_cases [of now d isStart] distinct_slots by auto

lemma subseq_available_end: "subseq (availableEndTimeSlots now sd st ed) generateTimeSlots"
proof -
  have "subseq (filter P (getAvailableTimeSlots now ed False)) generateTimeSlots" for P
    by (rule subseq_order.trans [OF subseq_filter_left subseq_available])
  then show ?thesis
    using available_end_cases [of now sd st ed] subseq_available [of now ed False] by auto
qed

lemma distinct_available_end: "distinct (availableEndTimeSlots now sd st ed)"
  using available_end_cases [of now sd st ed] distinct_available [of now ed False] by auto

text \<open>
  Claim C10. Whatever the candidate date (absent or not), the current instant, the
  field and the selected start slot, the slots offered for the start field and for
  the end field are a subsequence of the 96 generated slots (so each is a generated
  slot, in the generator's order) without repetition; with no candidate date, all 96
  slots are offered.
\<close>

theorem available_slots_subsequence:
  "subseq (getAvailableTimeSlots now d isStart) generateTimeSlots
   \<and> distinct (getAvailableTimeSlots now d isStart)
   \<and> subseq (availableEndTimeSlots now sd st ed) generateTimeSlots
   \<and> distinct (availableEndTimeSlots now sd st ed)
   \<and> getAvailableTimeSlots now None isStart = generateTimeSlots
   \<and> availableEndTimeSlots now sd st None = generateTimeSlots
   \<and> length generateTimeSlots = 96"
proof -
  have n1: "getAvailableTimeSlots now None isStart = generateTimeSlots"
    by (simp add: getAvailableTimeSlots_def TIME_SLOTS_def)
  have n2: "availableEndTimeSlots now sd st None = generateTimeSlots"
    by (simp add: availableEndTimeSlots_def getAvailableTimeSlots_def TIME_SLOTS_def
        split: option.split)
  show ?thesis
    using length_slots n1 n2 subseq_available [of now d isStart]
      subseq_available_end [of now sd st ed]
      distinct_available [of now d isStart] distinct_available_end [of now sd st ed]
    by simp
qed

subsection \<open>Meeting form: the end follows the start\<close>

lemma pad2_table:
  "list_all (\<lambda>n. Number (padStart (toString n) 2 ''0'') = Some n
                \<and> CHR '':'' \<notin> set (padStart (toString n) 2 ''0'')) [0..<60]"
  by code_simp

lemma pad2_Number: "n < 60 \<Longrightarrow> Number (padStart (toString n) 2 ''0'') = Some n"
  using pad2_table unfolding list_all_iff by simp

lemma pad2_no_colon: "n < 60 \<Longrightarrow> CHR '':'' \<notin> set (padStart (toString n) 2 ''0'')"
  using pad2_table unfolding list_all_iff by simp

lemma split_no_sep: "sep \<notin> set s \<Longrightarrow> split sep s = [s]"
  by (induction s) auto

lemma split_one_sep:
  "sep \<notin> set a \<Longrightarrow> sep \<notin> set b \<Longrightarrow> split sep (a @ sep # b) = [a, b]"
  by (induction a) (auto simp: split_no_sep)

lemma split_hm_format:
  assumes "h < 60" "m < 60"
  shows "split_hm (padStart (toString h) 2 ''0'' @ CHR '':'' # padStart (toString m) 2 ''0'')
           = (Some h, Some m)"
  using assms by (simp add: split_hm_def split_one_sep pad2_no_colon pad2_Number)

lemma getHours_bound: "getHours d < 24"
proof -
  have "0 \<le> d mod 86400000" "d mod 86400000 < 86400000" by simp_all
  then have "(d mod 86400000) div 3600000 \<le> 86399999 div 3600000"
    by (intro zdiv_mono1) simp_all
  then have "(d mod 86400000) div 3600000 < 24" by simp
  then show ?thesis unfolding getHours_def msPerDay_def by simp
qed

lemma getMinutes_bound: "getMinutes d < 60"
proof -
  have "0 \<le> d mod 3600000" "d mod 3600000 < 3600000" by simp_all
  then have "(d mod 3600000) div 60000 < 60" by simp
  then show ?thesis unfolding getMinutes_def by simp
qed

lemma split_hm_HHmm: "split_hm (format_HHmm d) = (Some (getHours d), Some (getMinutes d))"
proof -
  have "getHours d < 60" using getHours_bound [of d] by simp
  then show ?thesis
    unfolding format_HHmm_def by (simp add: split_hm_format getMinutes_bound)
qed

lemma local_time_rebuild:
  assumes "d mod 60000 = 0"
  shows "dateOnly d + int (getHours d) * 3600000 + int (getMinutes d) * 60000 = d"
proof -
  let ?x = "d mod 86400000"
  have x0: "0 \<le> ?x" by simp
  have m1: "d mod 3600000 = ?x mod 3600000" by (simp add: mod_mod_cancel)
  have m2: "(d mod 3600000) mod 60000 = 0" using assms by (simp add: mod_mod_cancel)
  have a: "?x = (?x div 3600000) * 3600000 + ?x mod 3600000" by simp
  have b: "d mod 3600000 = ((d mod 3600000) div 60000) * 60000"
    using m2 by (metis add.right_neutral div_mult_mod_eq)
  have h: "int (getHours d) = ?x div 3600000"
    unfolding getHours_def msPerDay_def using x0 by (simp add: pos_imp_zdiv_nonneg_iff)
  have m: "int (getMinutes d) = (d mod 3600000) div 60000"
    unfolding getMinutes_def by (simp add: pos_imp_zdiv_nonneg_iff)
  show ?thesis
    unfolding dateOnly_def msPerDay_def h m using a b m1 by linarith
qed

lemma whole_minute: "(dateOnly d + int h * 3600000 + int m * 60000) mod 60000 = 0"
proof -
  have "d - d mod 86400000 = (d div 86400000) * 86400000"
    by (simp add: minus_mod_eq_div_mult)
  then have "dateOnly d + int h * 3600000 + int m * 60000
               = 60000 * ((d div 86400000) * 1440 + int h * 60 + int m)"
    unfolding dateOnly_def msPerDay_def by simp
  then show ?thesis by simp
qed

lemma fixed_zone:
  assumes "transitions z = []"
  shows "LocalTime z t = t + base_offset z" and "UTC z lt = lt - base_offset z"
  using assms by (simp_all add: LocalTime_def UTC_def)

lemma dateAtTime_empty: "dateAtTime z d [] = None"
  by (simp add: dateAtTime_def split_hm_def Number_def)

lemma dateAtTime_fixed_whole_minute:
  assumes "transitions z = []" "dateAtTime z d t = Some s"
  shows "(s + base_offset z) mod 60000 = 0"
proof -
  from assms(2) obtain h m where "s = setHours z d h m"
    by (auto simp: dateAtTime_def split: option.splits prod.splits)
  then have "s + base_offset z
               = dateOnly (d + base_offset z) + int h * 3600000 + int m * 60000"
    by (simp add: setHours_def fixed_zone [OF assms(1)])
  then show ?thesis by (simp only: whole_minute)
qed

lemma dateAtTime_fixed_format:
  assumes "transitions z = []" "(d + base_offset z) mod 60000 = 0"
  shows "dateAtTime z d (format_HHmm (LocalTime z d)) = Some d"
  using local_time_rebuild [OF assms(2)]
  by (simp add: dateAtTime_def split_hm_HHmm setHours_def fixed_zone [OF assms(1)])

lemma autoAdjustEnd_spec:
  assumes "start_instant z g = Some s" and "end_instant z g = Some e"
  shows "autoAdjustEnd z g =
          (if e \<le> s
           then g\<lparr>endDate := Some (s + 3600000),
                  endTime := format_HHmm (LocalTime z (s + 3600000))\<rparr>
           else g)"
proof -
  from assms obtain sd ed where
    sd: "startDate g = Some sd" "dateAtTime z sd (startTime g) = Some s"
    and ed: "endDate g = Some ed" "dateAtTime z ed (endTime g) = Some e"
    by (auto simp: start_instant_def end_instant_def split: option.splits)
  have ne: "startTime g \<noteq> []" "endTime g \<noteq> []"
    using sd ed dateAtTime_empty by auto
  show ?thesis
    unfolding autoAdjustEnd_def using sd ed ne by (simp add: Let_def)
qed

text \<open>
  In a zone whose offset from UTC never changes: a start-side change is a new start
  date, or a start time different from the current one; \<open>g\<close> is the form with the new
  start written and \<open>f'\<close> the form after the render that follows. Whenever the start
  and the end of \<open>g\<close> are instants \<open>s\<close> and \<open>e\<close>: the start stays \<open>s\<close>; if \<open>e \<le> s\<close>, the
  end date and end time are set so that the end is the instant one hour
  (3600000 ms) after \<open>s\<close>; if \<open>s < e\<close>, the form is left alone.
\<close>

theorem end_advanced_in_fixed_zone:
  assumes zone: "transitions z = []"
    and change: "(g = f\<lparr>startDate := d\<rparr> \<and> f' = setStartDate z f d)
             \<or> (g = f\<lparr>startTime := t\<rparr> \<and> t \<noteq> startTime f \<and> f' = setStartTime z f t)"
    and s: "start_instant z g = Some s"
    and e: "end_instant z g = Some e"
  shows "start_instant z f' = Some s
     \<and> (e \<le> s \<longrightarrow> end_instant z f' = Some (s + 3600000)
                  \<and> endDate f' = Some (s + 3600000)
                  \<and> endTime f' = format_HHmm (LocalTime z (s + 3600000)))
     \<and> (s < e \<longrightarrow> f' = g)"
proof -
  have f': "f' = autoAdjustEnd z g"
    using change by (auto simp: setStartDate_def setStartTime_def)
  have adj: "f' = (if e \<le> s
                   then g\<lparr>endDate := Some (s + 3600000),
                          endTime := format_HHmm (LocalTime z (s + 3600000))\<rparr>
                   else g)"
    unfolding f' by (rule autoAdjustEnd_spec [OF s e])
  have st: "start_instant z f' = Some s"
    using s unfolding adj by (simp add: start_instant_def split: option.splits)
  have wm: "(s + 3600000 + base_offset z) mod 60000 = 0"
  proof -
    have "(s + base_offset z) mod 60000 = 0"
      using s
      by (auto simp: start_instant_def dateAtTime_fixed_whole_minute [OF zone]
          split: option.splits)
    then have "60000 dvd s + base_offset z" by (simp add: mod_eq_0_iff_dvd)
    moreover have "(60000::int) dvd 3600000" by simp
    ultimately have "60000 dvd (s + base_offset z) + 3600000" by (rule dvd_add)
    moreover have "s + 3600000 + base_offset z = (s + base_offset z) + 3600000" by simp
    ultimately show ?thesis by (simp only: mod_eq_0_iff_dvd)
  qed
  have en: "e \<le> s \<Longrightarrow> end_instant z f' = Some (s + 3600000)"
    unfolding adj
    by (simp add: end_instant_def dateAtTime_fixed_format [OF zone wm] split: option.splits)
  show ?thesis
    using st en adj by simp
qed

text \<open>
  In Asia/Kolkata, start and end on 1 June 2025 at 09:00 and 10:00: changing the
  start time to 15:00 moves the end to 16:00 on the same day.
\<close>

theorem end_advanced_in_fixed_zone_witness:
  "transitions asia_kolkata = []
   \<and> setStartTime asia_kolkata
        \<lparr>startDate = Some 1748716200000, startTime = ''09:00'',
         endDate = Some 1748716200000, endTime = ''10:00''\<rparr> ''15:00''
     = \<lparr>startDate = Some 1748716200000, startTime = ''15:00'',
        endDate = Some 1748773800000, endTime = ''16:00''\<rparr>
   \<and> toDateString (LocalTime asia_kolkata 1748773800000)
       = toDateString (LocalTime asia_kolkata 1748716200000)
   \<and> start_instant asia_kolkata
        \<lparr>startDate = Some 1748716200000, startTime = ''15:00'',
         endDate = Some 1748773800000, endTime = ''16:00''\<rparr> = Some 1748770200000
   \<and> end_instant asia_kolkata
        \<lparr>startDate = Some 1748716200000, startTime = ''15:00'',
         endDate = Some 1748773800000, endTime = ''16:00''\<rparr>
       = Some (1748770200000 + 3600000)"
proof -
  let ?f = "\<lparr>startDate = Some 1748716200000, startTime = ''09:00'',
             endDate = Some 1748716200000, endTime = ''10:00''\<rparr>"
  let ?g = "?f\<lparr>startTime := ''15:00''\<rparr>"
  let ?f' = "setStartTime asia_kolkata ?f ''15:00''"
  have z: "transitions asia_kolkata = []" by (simp add: asia_kolkata_def)
  have p: "split_hm ''15:00'' = (Some 15, Some 0)" "split_hm ''10:00'' = (Some 10, Some 0)"
    by (simp_all add: split_hm_def Number_def is_digit_def digit_val_def)
  have s: "start_instant asia_kolkata ?g = Some 1748770200000"
    by (simp add: start_instant_def dateAtTime_def p setHours_def fixed_zone [OF z]
        dateOnly_def msPerDay_def) (simp add: asia_kolkata_def)
  have e: "end_instant asia_kolkata ?g = Some 1748752200000"
    by (simp add: end_instant_def dateAtTime_def p setHours_def fixed_zone [OF z]
        dateOnly_def msPerDay_def) (simp add: asia_kolkata_def)
  have fmt: "format_HHmm (LocalTime asia_kolkata 1748773800000) = ''16:00''"
    by code_simp
  have c: "(?g = ?f\<lparr>startDate := None\<rparr> \<and> ?f' = setStartDate asia_kolkata ?f None)
             \<or> (?g = ?f\<lparr>startTime := ''15:00''\<rparr> \<and> ''15:00'' \<noteq> startTime ?f
                 \<and> ?f' = setStartTime asia_kolkata ?f ''15:00'')"
    by simp
  note t = end_advanced_in_fixed_zone [OF z c s e]
  have r: "?f' = \<lparr>startDate = Some 1748716200000, startTime = ''15:00'',
        endDate = Some 1748773800000, endTime = ''16:00''\<rparr>"
  proof -
    have "?f' = autoAdjustEnd asia_kolkata ?g"
      by (simp add: setStartTime_def)
    then show ?thesis
      using autoAdjustEnd_spec [OF s e] by (simp add: fmt)
  qed
  have d: "toDateString (LocalTime asia_kolkata 1748773800000)
       = toDateString (LocalTime asia_kolkata 1748716200000)"
    by (simp add: fixed_zone [OF z] toDateString_def msPerDay_def) (simp add: asia_kolkata_def)
  from t have i: "start_instant asia_kolkata ?f' = Some 1748770200000
      \<and> end_instant asia_kolkata ?f' = Some (1748770200000 + 3600000)"
    by simp
  from z i r d show ?thesis by (simp only:)
qed

text \<open>
  Europe/Berlin, 30 March 2025, when 02:00 to 03:00 local time is skipped: start and
  end date are 30 March, the end time is 01:00 and the start time is changed from
  00:30 to 01:30. The end written is 03:30 local time, one hour after the start as
  instants.
\<close>

lemma end_advanced_across_spring_forward:
  "setStartTime europe_berlin_2025
        \<lparr>startDate = Some 1743289200000, startTime = ''00:30'',
         endDate = Some 1743289200000, endTime = ''01:00''\<rparr> ''01:30''
     = \<lparr>startDate = Some 1743289200000, startTime = ''01:30'',
        endDate = Some 1743298200000, endTime = ''03:30''\<rparr>
   \<and> start_instant europe_berlin_2025
        \<lparr>startDate = Some 1743289200000, startTime = ''01:30'',
         endDate = Some 1743298200000, endTime = ''03:30''\<rparr> = Some 1743294600000
   \<and> end_instant europe_berlin_2025
        \<lparr>startDate = Some 1743289200000, startTime = ''01:30'',
         endDate = Some 1743298200000, endTime = ''03:30''\<rparr>
       = Some (1743294600000 + 3600000)"
proof -
  have p: "split_hm ''01:00'' = (Some 1, Some 0)" "split_hm ''01:30'' = (Some 1, Some 30)"
    "split_hm ''03:30'' = (Some 3, Some 30)"
    by (simp_all add: split_hm_def Number_def is_digit_def digit_val_def)
  have l: "LocalTime europe_berlin_2025 1743289200000 = 1743292800000"
    "LocalTime europe_berlin_2025 1743298200000 = 1743305400000"
    by (simp_all add: LocalTime_def europe_berlin_2025_def)
  have u: "UTC europe_berlin_2025 1743296400000 = 1743292800000"
    "UTC europe_berlin_2025 1743298200000 = 1743294600000"
    "UTC europe_berlin_2025 1743305400000 = 1743298200000"
    by (simp_all add: UTC_def europe_berlin_2025_def)
  have h: "setHours europe_berlin_2025 1743289200000 (Suc 0) 0 = 1743292800000"
    "setHours europe_berlin_2025 1743289200000 (Suc 0) 30 = 1743294600000"
    "setHours europe_berlin_2025 1743298200000 3 30 = 1743298200000"
    by (simp_all add: setHours_def l dateOnly_def msPerDay_def u)
  have fmt: "format_HHmm 1743305400000 = ''03:30''"
    by code_simp
  have 1: "setStartTime europe_berlin_2025
        \<lparr>startDate = Some 1743289200000, startTime = ''00:30'',
         endDate = Some 1743289200000, endTime = ''01:00''\<rparr> ''01:30''
     = \<lparr>startDate = Some 1743289200000, startTime = ''01:30'',
        endDate = Some 1743298200000, endTime = ''03:30''\<rparr>"
    by (simp add: setStartTime_def autoAdjustEnd_def dateAtTime_def p h l fmt)
  have 2: "start_instant europe_berlin_2025
        \<lparr>startDate = Some 1743289200000, startTime = ''01:30'',
         endDate = Some 1743298200000, endTime = ''03:30''\<rparr> = Some 1743294600000"
    by (simp add: start_instant_def dateAtTime_def p h)
  have 3: "end_instant europe_berlin_2025
        \<lparr>startDate = Some 1743289200000, startTime = ''01:30'',
         endDate = Some 1743298200000, endTime = ''03:30''\<rparr>
       = Some (1743294600000 + 3600000)"
    by (simp add: end_instant_def dateAtTime_def p h)
  from 1 2 3 show ?thesis by (simp only:)
qed

text \<open>
  Claim C1, at an input where the code departs from it. Europe/Berlin, the night of
  26 October 2025, when 02:00 to 03:00 local time occurs twice. Start and end date
  are 26 October, the start time is 01:00 and the end time 02:00, and the start time
  is changed to 02:30. The end (02:00, instant 00:00 UTC) is not after the new start
  (02:30, instant 00:30 UTC), so the effect writes the end date 01:30 UTC and the
  end time \<open>02:30\<close>, the local time of that instant. The form now reads 02:30 for
  start and end, and the end it holds resolves to the instant of the start, not to
  the instant one hour after it.
\<close>

theorem end_equals_start_on_fall_back_night:
  "end_instant europe_berlin_2025
      \<lparr>startDate = Some 1761429600000, startTime = ''02:30'',
       endDate = Some 1761429600000, endTime = ''02:00''\<rparr> = Some 1761436800000
   \<and> setStartTime europe_berlin_2025
        \<lparr>startDate = Some 1761429600000, startTime = ''01:00'',
         endDate = Some 1761429600000, endTime = ''02:00''\<rparr> ''02:30''
     = \<lparr>startDate = Some 1761429600000, startTime = ''02:30'',
        endDate = Some 1761442200000, endTime = ''02:30''\<rparr>
   \<and> start_instant europe_berlin_2025
        \<lparr>startDate = Some 1761429600000, startTime = ''02:30'',
         endDate = Some 1761442200000, endTime = ''02:30''\<rparr> = Some 1761438600000
   \<and> end_instant europe_berlin_2025
        \<lparr>startDate = Some 1761429600000, startTime = ''02:30'',
         endDate = Some 1761442200000, endTime = ''02:30''\<rparr> = Some 1761438600000
   \<and> buildISODateTime europe_berlin_2025 (Some 1761429600000) ''02:30''
       = Inr (toISOString 1761438600000)
   \<and> buildISODateTime europe_berlin_2025 (Some 1761442200000) ''02:30''
       = Inr (toISOString 1761438600000)"
proof -
  have p: "split_hm ''01:00'' = (Some 1, Some 0)" "split_hm ''02:00'' = (Some 2, Some 0)"
    "split_hm ''02:30'' = (Some 2, Some 30)"
    by (simp_all add: split_hm_def Number_def is_digit_def digit_val_def)
  have l: "LocalTime europe_berlin_2025 1761429600000 = 1761436800000"
    "LocalTime europe_berlin_2025 1761442200000 = 1761445800000"
    by (simp_all add: LocalTime_def europe_berlin_2025_def)
  have u: "UTC europe_berlin_2025 1761444000000 = 1761436800000"
    "UTC europe_berlin_2025 1761445800000 = 1761438600000"
    by (simp_all add: UTC_def europe_berlin_2025_def)
  have h: "setHours europe_berlin_2025 1761429600000 2 0 = 1761436800000"
    "setHours europe_berlin_2025 1761429600000 2 30 = 1761438600000"
    "setHours europe_berlin_2025 1761442200000 2 30 = 1761438600000"
    by (simp_all add: setHours_def l dateOnly_def msPerDay_def u)
  have fmt: "format_HHmm 1761445800000 = ''02:30''"
    by code_simp
  have 1: "end_instant europe_berlin_2025
      \<lparr>startDate = Some 1761429600000, startTime = ''02:30'',
       endDate = Some 1761429600000, endTime = ''02:00''\<rparr> = Some 1761436800000"
    by (simp add: end_instant_def dateAtTime_def p h)
  have 2: "setStartTime europe_berlin_2025
        \<lparr>startDate = Some 1761429600000, startTime = ''01:00'',
         endDate = Some 1761429600000, endTime = ''02:00''\<rparr> ''02:30''
     = \<lparr>startDate = Some 1761429600000, startTime = ''02:30'',
        endDate = Some 1761442200000, endTime = ''02:30''\<rparr>"
    by (simp add: setStartTime_def autoAdjustEnd_def dateAtTime_def p h l fmt)
  have 3: "start_instant europe_berlin_2025
        \<lparr>startDate = Some 1761429600000, startTime = ''02:30'',
         endDate = Some 1761442200000, endTime = ''02:30''\<rparr> = Some 1761438600000"
    by (simp add: start_instant_def dateAtTime_def p h)
  have 4: "end_instant europe_berlin_2025
        \<lparr>startDate = Some 1761429600000, startTime = ''02:30'',
         endDate = Some 1761442200000, endTime = ''02:30''\<rparr> = Some 1761438600000"
    by (simp add: end_instant_def dateAtTime_def p h)
  have 5: "buildISODateTime europe_berlin_2025 (Some 1761429600000) ''02:30''
       = Inr (toISOString 1761438600000)"
    by (simp add: buildISODateTime_def dateAtTime_def p h)
  have 6: "buildISODateTime europe_berlin_2025 (Some 1761442200000) ''02:30''
       = Inr (toISOString 1761438600000)"
    by (simp add: buildISODateTime_def dateAtTime_def p h)
  from 1 2 3 4 5 6 show ?thesis by (simp only:)
qed

subsection \<open>Meeting time resolver\<close>

text \<open>
  The resolver called with no date, in Europe/Berlin: it returns the empty string,
  which is a normal return and not an error.
\<close>

theorem buildISODateTime_absent_date_counterexample:
  "buildISODateTime europe_berlin_2025 None ''09:00'' = Inr []
   \<and> \<not> isl (buildISODateTime europe_berlin_2025 None ''09:00'')"
  by (simp add: buildISODateTime_def)

text \<open>
  Claim C9, as amended. For every time of day, the resolver returns the empty string
  when the date is absent, without raising. The validation error for an absent date
  comes from the guard of \<^verbatim>\<open>handleSubmit\<close>: when the start date or the end date is
  absent, the submit shows the \<open>Missing fields\<close> notification, writes nothing to the
  store and leaves the dialog open, before the resolver is called.
\<close>

theorem absent_date_rejected_on_submit:
  "buildISODateTime z None time = Inr []
   \<and> (startDate f = None \<or> endDate f = None \<longrightarrow>
        handleSubmit z user meeting formData f store_error =
          \<lparr>shown = Toast ''Missing fields'' ''Please fill in all required fields'' True,
           written = None, closed = False\<rparr>)"
  by (simp add: buildISODateTime_def handleSubmit_def)

theorem absent_date_rejected_on_submit_witness:
  "startDate \<lparr>startDate = None, startTime = ''09:00'',
               endDate = Some 1748728800000, endTime = ''10:00''\<rparr> = None
   \<and> handleSubmit europe_berlin_2025 (Some ''u1'') None
        \<lparr>fd_subject = ''Demo'', fd_description = [], fd_join_url = [], fd_lead_id = [],
         fd_contact_id = [], fd_status = ''scheduled''\<rparr>
        \<lparr>startDate = None, startTime = ''09:00'',
         endDate = Some 1748728800000, endTime = ''10:00''\<rparr> None
      = \<lparr>shown = Toast ''Missing fields'' ''Please fill in all required fields'' True,
         written = None, closed = False\<rparr>"
  using absent_date_rejected_on_submit [of europe_berlin_2025 "''09:00''"
      "\<lparr>startDate = None, startTime = ''09:00'',
         endDate = Some 1748728800000, endTime = ''10:00''\<rparr>" "Some ''u1''" None
      "\<lparr>fd_subject = ''Demo'', fd_description = [], fd_join_url = [], fd_lead_id = [],
         fd_contact_id = [], fd_status = ''scheduled''\<rparr>" None]
  by simp

subsection \<open>Permission gate\<close>

lemma useUserRole_nonempty: "useUserRole row \<noteq> []"
  by (simp add: useUserRole_def or_else_def split: option.split)

lemma useUserRole_Some: "role \<noteq> [] \<Longrightarrow> useUserRole (Some role) = role"
  by (simp add: useUserRole_def or_else_def)

text \<open>
  Claim C4. For every role and every route: without a permission record for the
  route, both gates allow access. With a record \<open>p\<close>, both gates give the admin flag
  to \<open>admin\<close>, the manager flag to \<open>manager\<close>, and the user flag to every other role:
  the sidebar filter for every string, the dashboard's \<^verbatim>\<open>hasAccess\<close> for every role
  that \<^verbatim>\<open>useUserRole\<close> hands to it, which is every string but the empty one (an empty
  or missing role in the table arrives as \<open>user\<close>). The gates are functions of the
  permissions, the role and the route.
\<close>

theorem permission_gate_spec:
  "(find (\<lambda>p. route p = r) permissions = None \<longrightarrow>
      menuItemVisible permissions role r
      \<and> hasAccess (Some permissions) (Some role) r)
   \<and> (find (\<lambda>p. route p = r) permissions = Some p \<longrightarrow>
        menuItemVisible permissions ''admin'' r = admin_access p
      \<and> menuItemVisible permissions ''manager'' r = manager_access p
      \<and> (role \<noteq> ''admin'' \<and> role \<noteq> ''manager'' \<longrightarrow>
            menuItemVisible permissions role r = user_access p)
      \<and> hasAccess (Some permissions) (Some ''admin'') r = admin_access p
      \<and> hasAccess (Some permissions) (Some ''manager'') r = manager_access p
      \<and> (useUserRole row \<noteq> ''admin'' \<and> useUserRole row \<noteq> ''manager'' \<longrightarrow>
            hasAccess (Some permissions) (Some (useUserRole row)) r = user_access p)
      \<and> (role \<noteq> ''admin'' \<and> role \<noteq> ''manager'' \<and> role \<noteq> [] \<longrightarrow>
            hasAccess (Some permissions) (Some role) r = user_access p))
   \<and> useUserRole row \<noteq> []
   \<and> (role \<noteq> [] \<longrightarrow> useUserRole (Some role) = role)"
  using useUserRole_nonempty [of row]
  by (simp add: menuItemVisible_def hasAccess_def role_flag_def useUserRole_Some)

text \<open>
  With records for \<open>/deals\<close> (admin only) and \<open>/tasks\<close> (manager and user): \<open>/leads\<close> has
  no record and is open to the unknown role \<open>guest\<close>; \<open>/deals\<close> is open to \<open>admin\<close> and
  closed to \<open>manager\<close>, to \<open>guest\<close> and to a user without a role in the table, in both
  gates.
\<close>

theorem permission_gate_spec_witness:
  "find (\<lambda>p. route p = ''/leads'') sample_permissions = None
   \<and> menuItemVisible sample_permissions ''guest'' ''/leads''
   \<and> useUserRole (Some ''guest'') = ''guest''
   \<and> hasAccess (Some sample_permissions) (Some ''guest'') ''/leads''
   \<and> find (\<lambda>p. route p = ''/deals'') sample_permissions
       = Some \<lparr>route = ''/deals'', admin_access = True, manager_access = False,
               user_access = False\<rparr>
   \<and> menuItemVisible sample_permissions ''admin'' ''/deals''
   \<and> \<not> menuItemVisible sample_permissions ''manager'' ''/deals''
   \<and> \<not> menuItemVisible sample_permissions ''guest'' ''/deals''
   \<and> hasAccess (Some sample_permissions) (Some ''admin'') ''/deals''
   \<and> \<not> hasAccess (Some sample_permissions) (Some ''manager'') ''/deals''
   \<and> \<not> hasAccess (Some sample_permissions) (Some ''guest'') ''/deals''
   \<and> useUserRole None = ''user''
   \<and> \<not> hasAccess (Some sample_permissions) (Some (useUserRole None)) ''/deals''"
proof -
  let ?p = "\<lparr>route = ''/deals'', admin_access = True, manager_access = False,
             user_access = False\<rparr>"
  have n: "find (\<lambda>p. route p = ''/leads'') sample_permissions = None"
    by (simp add: sample_permissions_def)
  have s: "find (\<lambda>p. route p = ''/deals'') sample_permissions = Some ?p"
    by (simp add: sample_permissions_def)
  have g: "''guest'' \<noteq> ''admin'' \<and> ''guest'' \<noteq> ''manager'' \<and> ''guest'' \<noteq> []"
    by simp
  have u: "useUserRole None = ''user''" by (simp add: useUserRole_def)
  have u': "useUserRole None \<noteq> ''admin'' \<and> useUserRole None \<noteq> ''manager''"
    unfolding u by simp
  have f: "admin_access ?p" "\<not> manager_access ?p" "\<not> user_access ?p" by simp_all
  from permission_gate_spec [where r = "''/leads''" and permissions = sample_permissions
      and role = "''guest''"] n g
  have 1: "menuItemVisible sample_permissions ''guest'' ''/leads''
           \<and> useUserRole (Some ''guest'') = ''guest''
           \<and> hasAccess (Some sample_permissions) (Some ''guest'') ''/leads''"
    by blast
  from permission_gate_spec [where r = "''/deals''" and permissions = sample_permissions
      and role = "''guest''" and row = None and p = ?p] s g u' f
  have 2: "menuItemVisible sample_permissions ''admin'' ''/deals''
   \<and> \<not> menuItemVisible sample_permissions ''manager'' ''/deals''
   \<and> \<not> menuItemVisible sample_permissions ''guest'' ''/deals''
   \<and> hasAccess (Some sample_permissions) (Some ''admin'') ''/deals''
   \<and> \<not> hasAccess (Some sample_permissions) (Some ''manager'') ''/deals''
   \<and> \<not> hasAccess (Some sample_permissions) (Some ''guest'') ''/deals''
   \<and> \<not> hasAccess (Some sample_permissions) (Some (useUserRole None)) ''/deals''"
    by blast
  from n s u 1 2 show ?thesis by blast
qed

subsection \<open>External meeting provisioner\<close>

lemma serve_missing:
  "session_user e = Some u \<Longrightarrow> missing_required_fields r \<Longrightarrow>
     serve e ''POST'' r = ([AuthGetUser], bad_request)"
  by (simp add: serve_def)

lemma serve_valid:
  assumes "\<not> missing_required_fields r"
  shows "\<exists>subject attendees start_time end_time.
          r = \<lparr>req_subject = Some subject, req_attendees = Some attendees,
               req_startTime = Some start_time, req_endTime = Some end_time\<rparr>
          \<and> subject \<noteq> [] \<and> start_time \<noteq> [] \<and> end_time \<noteq> []"
  using assms by (cases r) (auto simp: missing_required_fields_def falsy_def)

lemma internal_error_status: "status (internal_error error) = 500"
  by (simp add: internal_error_def)

lemma serve_not_400:
  assumes "session_user e = Some u" "\<not> missing_required_fields r"
  shows "status (snd (serve e ''POST'' r)) \<noteq> 400"
proof -
  from serve_valid [OF assms(2)] obtain subject attendees start_time end_time where
    r: "r = \<lparr>req_subject = Some subject, req_attendees = Some attendees,
               req_startTime = Some start_time, req_endTime = Some end_time\<rparr>" by blast
  show ?thesis
    using assms
    by (auto simp: serve_def r internal_error_status Let_def split: prod.splits sum.splits)
qed

lemma services_ok_replies:
  assumes "services_ok e"
  shows "\<exists>t u m. token_response e = Response True (Inr t)
           \<and> user_response e = Response True (Inr u)
           \<and> meeting_response e = Response True (Inr m)"
  using assms
  by (auto simp: services_ok_def split: fetched.splits sum.splits)

lemma getAccessToken_ok:
  "services_ok e \<Longrightarrow> \<exists>t i s tok. getAccessToken e = ([TokenRequest t i s], Inr tok)"
  using services_ok_replies [of e]
  by (auto simp: services_ok_def falsy_def getAccessToken_def split: option.splits)

lemma getAccessToken_configured:
  "\<not> falsy (AZURE_TENANT_ID e) \<Longrightarrow> \<not> falsy (AZURE_CLIENT_ID e) \<Longrightarrow>
   \<not> falsy (AZURE_CLIENT_SECRET e) \<Longrightarrow>
     \<exists>t i s res. getAccessToken e = ([TokenRequest t i s], res)"
  by (auto simp: falsy_def getAccessToken_def split: option.splits)

lemma getAccessToken_no_graph:
  "list_all (\<lambda>c. \<not> create_call c \<and> \<not> lookup_call c) (fst (getAccessToken e))"
  by (auto simp: getAccessToken_def create_call_def lookup_call_def split: option.splits)

lemma serve_success:
  assumes "session_user e = Some u" "\<not> missing_required_fields r" "services_ok e"
  shows "status (snd (serve e ''POST'' r)) = 200"
proof -
  from serve_valid [OF assms(2)] obtain subject attendees start_time end_time where
    r: "r = \<lparr>req_subject = Some subject, req_attendees = Some attendees,
               req_startTime = Some start_time, req_endTime = Some end_time\<rparr>" by blast
  from getAccessToken_ok [OF assms(3)] obtain t i s tok where
    tok: "getAccessToken e = ([TokenRequest t i s], Inr tok)"
    by blast
  from services_ok_replies [OF assms(3)] obtain ud md where
    ok: "user_response e = Response True (Inr ud)"
      "meeting_response e = Response True (Inr md)"
    by blast
  show ?thesis
    using assms(1,2) by (simp add: serve_def r tok createOnlineMeeting_def ok Let_def)
qed

lemma serve_calls_prefix:
  assumes "session_user e = Some u" "\<not> missing_required_fields r"
  shows "\<exists>rest. fst (serve e ''POST'' r) = AuthGetUser # fst (getAccessToken e) @ rest"
proof -
  from serve_valid [OF assms(2)] obtain subject attendees start_time end_time where
    r: "r = \<lparr>req_subject = Some subject, req_attendees = Some attendees,
               req_startTime = Some start_time, req_endTime = Some end_time\<rparr>" by blast
  show ?thesis
    using assms(1,2)
    by (auto simp: serve_def r Let_def split: sum.splits prod.splits)
qed

lemma serve_token_requested:
  assumes "session_user e = Some u" "\<not> missing_required_fields r"
    "\<not> falsy (AZURE_TENANT_ID e)" "\<not> falsy (AZURE_CLIENT_ID e)"
    "\<not> falsy (AZURE_CLIENT_SECRET e)"
  shows "list_ex provider_call (fst (serve e ''POST'' r))"
proof -
  from getAccessToken_configured [OF assms(3,4,5)] obtain t i s res where
    tok: "getAccessToken e = ([TokenRequest t i s], res)" by blast
  from serve_calls_prefix [OF assms(1,2)] obtain rest where
    "fst (serve e ''POST'' r) = AuthGetUser # fst (getAccessToken e) @ rest" by blast
  then show ?thesis by (simp add: tok provider_call_def)
qed

lemma createOnlineMeeting_lookup_not_ok:
  "user_response e = Response False parsed \<Longrightarrow>
     createOnlineMeeting e tok subject st en email =
       ([GraphGetUser tok email],
        case parsed of Inl error \<Rightarrow> Inl error
        | Inr errorData \<Rightarrow> Inl (Error (cannot_find_user email)))"
  by (simp add: createOnlineMeeting_def split: sum.split)

lemma cannot_find_user_nonempty: "cannot_find_user email \<noteq> []"
  by (simp add: cannot_find_user_def)

text \<open>
  A request with an empty subject: from a signed-in caller it is answered 400, but
  after a remote call, the session check; without a session it is answered 401, and
  sent as \<open>PUT\<close> it is answered 405.
\<close>

theorem empty_subject_after_session_check_counterexample:
  "req_subject (sample_request [] []) = Some []
   \<and> serve sample_env ''POST'' (sample_request [] []) =
        ([AuthGetUser],
         \<lparr>status = 400,
          body = ErrorBody
            ''Missing required fields: subject, attendees, startTime, endTime''\<rparr>)
   \<and> serve (sample_env\<lparr>session_user := None\<rparr>) ''POST'' (sample_request [] []) =
        ([AuthGetUser], \<lparr>status = 401, body = ErrorBody ''Authentication required''\<rparr>)
   \<and> serve sample_env ''PUT'' (sample_request [] []) =
        ([AuthGetUser], \<lparr>status = 405, body = ErrorBody ''Method not allowed''\<rparr>)"
  by (simp add: sample_env_def sample_request_def serve_def missing_required_fields_def
      falsy_def bad_request_def)

text \<open>
  Claim C6, as amended. For a \<open>POST\<close> from a signed-in caller: a request with a
  non-empty subject, an empty attendee list and non-empty start and end passes the
  field validation (the response is not the 400 rejection), the identity provider is
  called as soon as the three configuration values are set, and the response is 200
  when every service answers OK. A request with an empty subject is rejected with
  status 400 and the \<open>Missing required fields\<close> message, after the session check and
  before any call to the identity provider or to Graph.
\<close>

theorem empty_attendees_pass_empty_subject_rejected:
  assumes "session_user e = Some u"
  shows "(subject \<noteq> [] \<and> start \<noteq> [] \<and> finish \<noteq> [] \<longrightarrow>
            \<not> missing_required_fields
                \<lparr>req_subject = Some subject, req_attendees = Some [],
                 req_startTime = Some start, req_endTime = Some finish\<rparr>
          \<and> status (snd (serve e ''POST''
                \<lparr>req_subject = Some subject, req_attendees = Some [],
                 req_startTime = Some start, req_endTime = Some finish\<rparr>)) \<noteq> 400
          \<and> (\<not> falsy (AZURE_TENANT_ID e) \<and> \<not> falsy (AZURE_CLIENT_ID e)
               \<and> \<not> falsy (AZURE_CLIENT_SECRET e) \<longrightarrow>
                list_ex provider_call (fst (serve e ''POST''
                  \<lparr>req_subject = Some subject, req_attendees = Some [],
                   req_startTime = Some start, req_endTime = Some finish\<rparr>)))
          \<and> (services_ok e \<longrightarrow>
                status (snd (serve e ''POST''
                  \<lparr>req_subject = Some subject, req_attendees = Some [],
                   req_startTime = Some start, req_endTime = Some finish\<rparr>)) = 200))
      \<and> (req_subject r = Some [] \<longrightarrow>
            serve e ''POST'' r =
              ([AuthGetUser],
               \<lparr>status = 400,
                body = ErrorBody
                  ''Missing required fields: subject, attendees, startTime, endTime''\<rparr>)
            \<and> \<not> list_ex provider_call (fst (serve e ''POST'' r)))"
proof -
  let ?r = "\<lparr>req_subject = Some subject, req_attendees = Some [],
                 req_startTime = Some start, req_endTime = Some finish\<rparr>"
  have v: "subject \<noteq> [] \<Longrightarrow> start \<noteq> [] \<Longrightarrow> finish \<noteq> [] \<Longrightarrow> \<not> missing_required_fields ?r"
    by (simp add: missing_required_fields_def falsy_def)
  have m: "req_subject r = Some [] \<Longrightarrow> missing_required_fields r"
    by (simp add: missing_required_fields_def falsy_def)
  have b: "req_subject r = Some [] \<Longrightarrow> serve e ''POST'' r = ([AuthGetUser], bad_request)"
    using serve_missing [OF assms] m by blast
  show ?thesis
    using v b serve_not_400 [OF assms, of ?r] serve_token_requested [OF assms, of ?r]
      serve_success [OF assms, of ?r]
    by (auto simp: bad_request_def provider_call_def)
qed

text \<open>
  A signed-in user, all services up: subject \<open>Demo\<close> with no attendees gets 200 after
  calls to the providers; the empty subject gets the 400 rejection after the session
  check alone.
\<close>

theorem empty_attendees_pass_empty_subject_rejected_witness:
  "session_user sample_env = Some \<lparr>user_id = ''u1'', user_email = ''ann@example.com''\<rparr>
   \<and> services_ok sample_env
   \<and> req_attendees (sample_request ''Demo'' []) = Some []
   \<and> \<not> missing_required_fields (sample_request ''Demo'' [])
   \<and> status (snd (serve sample_env ''POST'' (sample_request ''Demo'' []))) = 200
   \<and> list_ex provider_call (fst (serve sample_env ''POST'' (sample_request ''Demo'' [])))
   \<and> req_subject (sample_request [] []) = Some []
   \<and> serve sample_env ''POST'' (sample_request [] []) =
        ([AuthGetUser],
         \<lparr>status = 400,
          body = ErrorBody
            ''Missing required fields: subject, attendees, startTime, endTime''\<rparr>)"
proof -
  have a: "session_user sample_env
             = Some \<lparr>user_id = ''u1'', user_email = ''ann@example.com''\<rparr>"
    by (simp add: sample_env_def)
  have o: "services_ok sample_env"
    by (simp add: services_ok_def sample_env_def falsy_def)
  have c: "\<not> falsy (AZURE_TENANT_ID sample_env) \<and> \<not> falsy (AZURE_CLIENT_ID sample_env)
               \<and> \<not> falsy (AZURE_CLIENT_SECRET sample_env)"
    using o by (simp add: services_ok_def)
  have q: "sample_request ''Demo'' [] =
      \<lparr>req_subject = Some ''Demo'', req_attendees = Some [],
       req_startTime = Some ''2025-06-01T07:00:00.000Z'',
       req_endTime = Some ''2025-06-01T08:00:00.000Z''\<rparr>"
    by (simp add: sample_request_def)
  have e: "req_subject (sample_request [] []) = Some []"
    by (simp add: sample_request_def)
  note t = empty_attendees_pass_empty_subject_rejected [OF a, of "''Demo''"
      "''2025-06-01T07:00:00.000Z''" "''2025-06-01T08:00:00.000Z''" "sample_request [] []"]
  from t a o c e show ?thesis unfolding q by simp
qed

text \<open>
  A request with an empty attendee list is not rejected: with a signed-in user and
  all services up it runs through the token request, the directory lookup and the
  creation of the meeting, and is answered with 200.
\<close>

theorem empty_attendee_list_not_rejected_counterexample:
  "req_attendees (sample_request ''Demo'' []) = Some []
   \<and> session_user sample_env = Some \<lparr>user_id = ''u1'', user_email = ''ann@example.com''\<rparr>
   \<and> status (snd (serve sample_env ''POST'' (sample_request ''Demo'' []))) = 200
   \<and> fst (serve sample_env ''POST'' (sample_request ''Demo'' [])) =
       [AuthGetUser, TokenRequest ''tenant'' ''client'' ''secret'',
        GraphGetUser ''tok'' ''ann@example.com'',
        GraphCreateMeeting ''tok'' ''g1''
          \<lparr>startDateTime = ''2025-06-01T07:00:00.000Z'',
           endDateTime = ''2025-06-01T08:00:00.000Z'', body_subject = ''Demo'',
           lobbyBypassScope = ''everyone'', isDialInBypassEnabled = True,
           allowedPresenters = ''everyone''\<rparr>,
        LogSecurityEvent
          \<lparr>ad_meeting_id = ''m1'', ad_subject = ''Demo'', ad_attendee_count = 0,
           ad_created_by = ''u1'', ad_join_url = ''https://teams.example/m1''\<rparr>]"
  by (simp add: sample_env_def sample_request_def serve_def missing_required_fields_def
      falsy_def getAccessToken_def createOnlineMeeting_def Let_def)

text \<open>
  Claim C7, as amended. For an authenticated \<open>POST\<close>, the request is rejected with
  status 400 exactly when the subject is missing or empty, the attendee list is
  missing, the start is missing or empty, or the end is missing or empty; the
  rejection is the \<open>Missing required fields\<close> response, made after the session check
  and before any call to the identity provider or to Graph. An attendee list that is
  present and empty is not a reason for rejection.
\<close>

theorem field_validation_spec:
  assumes "session_user e = Some u"
  shows "(status (snd (serve e ''POST'' r)) = 400) =
           (falsy (req_subject r) \<or> req_attendees r = None \<or>
            falsy (req_startTime r) \<or> falsy (req_endTime r))
       \<and> (status (snd (serve e ''POST'' r)) = 400 \<longrightarrow>
            serve e ''POST'' r =
              ([AuthGetUser],
               \<lparr>status = 400,
                body = ErrorBody
                  ''Missing required fields: subject, attendees, startTime, endTime''\<rparr>))
       \<and> (req_attendees r = Some [] \<longrightarrow>
            (status (snd (serve e ''POST'' r)) = 400) =
              (falsy (req_subject r) \<or> falsy (req_startTime r) \<or> falsy (req_endTime r)))"
proof -
  have a: "missing_required_fields r \<Longrightarrow> serve e ''POST'' r = ([AuthGetUser], bad_request)"
    using serve_missing [OF assms] by blast
  have b: "\<not> missing_required_fields r \<Longrightarrow> status (snd (serve e ''POST'' r)) \<noteq> 400"
    using serve_not_400 [OF assms] by blast
  have c: "(status (snd (serve e ''POST'' r)) = 400) = missing_required_fields r"
    using a b by (auto simp: bad_request_def)
  show ?thesis
    unfolding c using a by (auto simp: missing_required_fields_def bad_request_def)
qed

text \<open>
  An empty subject with one attendee is rejected with 400; the subject \<open>Review\<close> with
  no attendees is not.
\<close>

theorem field_validation_spec_witness:
  "session_user sample_env = Some \<lparr>user_id = ''u1'', user_email = ''ann@example.com''\<rparr>
   \<and> falsy (req_subject
        (sample_request [] [\<lparr>att_email = ''bob@example.com'', att_name = ''Bob''\<rparr>]))
   \<and> serve sample_env ''POST''
        (sample_request [] [\<lparr>att_email = ''bob@example.com'', att_name = ''Bob''\<rparr>]) =
        ([AuthGetUser],
         \<lparr>status = 400,
          body = ErrorBody
            ''Missing required fields: subject, attendees, startTime, endTime''\<rparr>)
   \<and> req_attendees (sample_request ''Review'' []) = Some []
   \<and> status (snd (serve sample_env ''POST'' (sample_request ''Review'' []))) \<noteq> 400"
proof -
  have a: "session_user sample_env
             = Some \<lparr>user_id = ''u1'', user_email = ''ann@example.com''\<rparr>"
    by (simp add: sample_env_def)
  have f: "falsy (req_subject
        (sample_request [] [\<lparr>att_email = ''bob@example.com'', att_name = ''Bob''\<rparr>]))"
    by (simp add: sample_request_def falsy_def)
  have g: "req_attendees (sample_request ''Review'' []) = Some []"
    "\<not> falsy (req_subject (sample_request ''Review'' []))"
    "\<not> falsy (req_startTime (sample_request ''Review'' []))"
    "\<not> falsy (req_endTime (sample_request ''Review'' []))"
    by (simp_all add: sample_request_def falsy_def)
  from field_validation_spec [OF a,
      of "sample_request [] [\<lparr>att_email = ''bob@example.com'', att_name = ''Bob''\<rparr>]"]
    field_validation_spec [OF a, of "sample_request ''Review'' []"] a f g
  show ?thesis by blast
qed

text \<open>
  When the directory answers the lookup of the organizer with a response that is not
  OK: the handler never issues a request to create an online meeting; and if the
  body of that response is JSON, \<^verbatim>\<open>createOnlineMeeting\<close> makes the lookup and nothing
  else and throws the error whose message names the organizer and the two likely
  causes (the application lacks the directory permission, or the user is not in the
  tenant), and whenever the handler got as far as the lookup, its response is the
  500 carrying that message.
\<close>

theorem organizer_lookup_not_ok:
  assumes "user_response e = Response False parsed"
  shows "\<not> list_ex create_call (fst (serve e method r))
       \<and> (parsed = Inr errorData \<longrightarrow>
            createOnlineMeeting e tok subject st en email =
              ([GraphGetUser tok email],
               Inl (Error (''Cannot find user in Azure AD: '' @ email @ ''. '' @
                 ''Please ensure the Azure App has User.Read.All permission with admin consent, '' @
                 ''or the user exists in your Azure AD tenant.''))))
       \<and> (parsed = Inr errorData \<and> session_user e = Some u
            \<and> list_ex lookup_call (fst (serve e method r)) \<longrightarrow>
            snd (serve e method r) =
              \<lparr>status = 500,
               body = ErrorDetails (cannot_find_user (user_email u))
                        (cannot_find_user (user_email u))\<rparr>)"
proof -
  note 1 = createOnlineMeeting_lookup_not_ok [OF assms]
  have tk: "\<not> create_call c \<and> \<not> lookup_call c" if "c \<in> set (fst (getAccessToken e))" for c
    using getAccessToken_no_graph [of e] that unfolding list_all_iff by blast
  have 2: "\<not> list_ex create_call (fst (serve e method r))"
    using tk
    by (auto simp: serve_def 1 list_ex_iff create_call_def Let_def
        split: option.splits prod.splits sum.splits)
  have 3: "snd (serve e method r) =
              \<lparr>status = 500,
               body = ErrorDetails (cannot_find_user (user_email u))
                        (cannot_find_user (user_email u))\<rparr>"
    if "parsed = Inr errorData" "session_user e = Some u"
      "list_ex lookup_call (fst (serve e method r))"
    using that tk
    by (auto simp: serve_def 1 list_ex_iff lookup_call_def Let_def internal_error_def
        or_else_def cannot_find_user_nonempty
        split: option.splits prod.splits sum.splits if_splits)
  show ?thesis using 1 2 3 by (simp add: cannot_find_user_def)
qed

text \<open>
  The directory answers not-OK with a JSON body for \<open>ann@example.com\<close>: the calls stop
  at the lookup and the response is 500 with the diagnostic message.
\<close>

theorem organizer_lookup_not_ok_witness:
  "user_response no_directory_env = Response False (Inr \<lparr>graph_user_id = []\<rparr>)
   \<and> session_user no_directory_env
       = Some \<lparr>user_id = ''u1'', user_email = ''ann@example.com''\<rparr>
   \<and> fst (serve no_directory_env ''POST'' (sample_request ''Demo'' [])) =
        [AuthGetUser, TokenRequest ''tenant'' ''client'' ''secret'',
         GraphGetUser ''tok'' ''ann@example.com'']
   \<and> snd (serve no_directory_env ''POST'' (sample_request ''Demo'' [])) =
        \<lparr>status = 500,
         body = ErrorDetails (cannot_find_user ''ann@example.com'')
                  (cannot_find_user ''ann@example.com'')\<rparr>
   \<and> cannot_find_user ''ann@example.com'' =
        ''Cannot find user in Azure AD: ann@example.com. Please ensure the Azure App has User.Read.All permission with admin consent, or the user exists in your Azure AD tenant.''"
proof -
  have n: "user_response no_directory_env = Response False (Inr \<lparr>graph_user_id = []\<rparr>)"
    by (simp add: no_directory_env_def)
  have a: "session_user no_directory_env
             = Some \<lparr>user_id = ''u1'', user_email = ''ann@example.com''\<rparr>"
    by (simp add: no_directory_env_def sample_env_def)
  have c: "fst (serve no_directory_env ''POST'' (sample_request ''Demo'' [])) =
        [AuthGetUser, TokenRequest ''tenant'' ''client'' ''secret'',
         GraphGetUser ''tok'' ''ann@example.com'']"
    by (simp add: no_directory_env_def sample_env_def sample_request_def serve_def
        missing_required_fields_def falsy_def getAccessToken_def createOnlineMeeting_def
        Let_def)
  have l: "list_ex lookup_call
             (fst (serve no_directory_env ''POST'' (sample_request ''Demo'' [])))"
    unfolding c by (simp add: lookup_call_def)
  have m: "cannot_find_user ''ann@example.com'' =
        ''Cannot find user in Azure AD: ann@example.com. Please ensure the Azure App has User.Read.All permission with admin consent, or the user exists in your Azure AD tenant.''"
    by (simp add: cannot_find_user_def)
  from organizer_lookup_not_ok [OF n, of "''POST''" "sample_request ''Demo'' []"
      "\<lparr>graph_user_id = []\<rparr>" _ _ _ _ _
      "\<lparr>user_id = ''u1'', user_email = ''ann@example.com''\<rparr>"] a l
  have "snd (serve no_directory_env ''POST'' (sample_request ''Demo'' [])) =
        \<lparr>status = 500,
         body = ErrorDetails (cannot_find_user ''ann@example.com'')
                  (cannot_find_user ''ann@example.com'')\<rparr>"
    by simp
  with n a c m show ?thesis by blast
qed

text \<open>
  Claim C8, at an input where the code departs from it. The directory answers the
  lookup of the organizer with a response that is not OK and has an empty body. In
  the branch for a failed lookup the body is parsed first, the parse throws, and the
  handler answers 500 with the parser's message; the message that names the organizer
  and the likely causes is never built. No request to create a meeting is issued.
\<close>

theorem lookup_failure_with_unparsable_body:
  "user_response empty_body_env
     = Response False (Inl (SyntaxError ''Unexpected end of JSON input''))
   \<and> createOnlineMeeting empty_body_env ''tok'' ''Demo'' ''2025-06-01T07:00:00.000Z''
        ''2025-06-01T08:00:00.000Z'' ''ann@example.com''
       = ([GraphGetUser ''tok'' ''ann@example.com''],
          Inl (SyntaxError ''Unexpected end of JSON input''))
   \<and> serve empty_body_env ''POST'' (sample_request ''Demo'' [])
       = ([AuthGetUser, TokenRequest ''tenant'' ''client'' ''secret'',
           GraphGetUser ''tok'' ''ann@example.com''],
          \<lparr>status = 500,
           body = ErrorDetails ''Unexpected end of JSON input''
                    ''Unexpected end of JSON input''\<rparr>)
   \<and> ''Unexpected end of JSON input'' \<noteq> cannot_find_user ''ann@example.com''"
  by (simp add: empty_body_env_def sample_env_def sample_request_def serve_def
      missing_required_fields_def falsy_def getAccessToken_def createOnlineMeeting_def
      internal_error_def or_else_def cannot_find_user_def Let_def)

end
